theory Spec2Isabelle
  imports Complex_Main
begin

section \<open>Request values and replies\<close>

text \<open>
  A field of a JSON request body is absent (\<open>undefined\<close> after destructuring),
  \<open>null\<close>, or a value.  The handlers test fields with \<open>!x\<close>: a number is
  falsy when it is 0, a string when it is empty, and \<open>undefined\<close> and \<open>null\<close> always.
  The driver sends both \<open>undefined\<close> and \<open>null\<close> to the store as SQL NULL, and a
  number as its decimal numeral: \<open>Val x\<close> of a numeric field is that decimal.
  Typing of the requests: a numeric field holds a number, an id a well-formed UUID (kept
  as an opaque string) and a date field a well-formed date.
\<close>

datatype 'a js = Undefined | Null | Val 'a

fun truthy_num :: "rat js \<Rightarrow> bool" where
  "truthy_num (Val x) = (x \<noteq> 0)"
| "truthy_num _ = False"

fun truthy_str :: "string js \<Rightarrow> bool" where
  "truthy_str (Val s) = (s \<noteq> [])"
| "truthy_str _ = False"

fun val_or :: "'a \<Rightarrow> 'a js \<Rightarrow> 'a" where
  "val_or dflt (Val x) = x"
| "val_or dflt _ = dflt"

fun sql_param :: "'a js \<Rightarrow> 'a option" where
  "sql_param (Val x) = Some x"
| "sql_param _ = None"

text \<open>\<open>COALESCE($n, column)\<close> for a column that holds a value, and for a nullable one.\<close>

fun coalesce :: "'a option \<Rightarrow> 'a \<Rightarrow> 'a" where
  "coalesce (Some v) old = v"
| "coalesce None old = old"

fun coalesce_null :: "'a option \<Rightarrow> 'a option \<Rightarrow> 'a option" where
  "coalesce_null (Some v) old = Some v"
| "coalesce_null None old = old"

text \<open>
  What a handler sends: \<open>res.status(201).json(x)\<close> is \<open>Created x\<close>,
  \<open>res.json(x)\<close> is \<open>Ok x\<close>, and the error replies carry their message.
\<close>

datatype 'a reply = Ok 'a | Created 'a | BadRequest string | NotFound string | ServerError string

fun status_code :: "'a reply \<Rightarrow> nat" where
  "status_code (Ok _) = 200"
| "status_code (Created _) = 201"
| "status_code (BadRequest _) = 400"
| "status_code (NotFound _) = 404"
| "status_code (ServerError _) = 500"

section \<open>The schema\<close>

text \<open>
  The tables are those of the schema file (\<open>CREATE TABLE\<close> for users, projects,
  invoices, payments, deadlines and colorado\_lien\_rules).  A statement that breaks a
  column type or a constraint fails as a whole and changes nothing.
\<close>

datatype db_error =
  ConnectionError | NumericOverflow | StringTooLong | CheckViolation
  | ForeignKeyViolation | UniqueViolation

definition then_do :: "'e + 'a \<Rightarrow> ('a \<Rightarrow> 'e + 'b) \<Rightarrow> 'e + 'b" where
  "then_do r f = (case r of Inl e \<Rightarrow> Inl e | Inr a \<Rightarrow> f a)"

text \<open>
  \<open>DECIMAL(p, s)\<close>: a value written to the column is rounded to \<open>s\<close> decimals, a
  half away from zero, and refused when the rounded value needs more than \<open>p\<close> digits.
\<close>

definition round_half_away :: "rat \<Rightarrow> int" where
  "round_half_away x = (if 0 \<le> x then \<lfloor>x + 1 / 2\<rfloor> else - \<lfloor>- x + 1 / 2\<rfloor>)"

definition decimal :: "nat \<Rightarrow> nat \<Rightarrow> rat \<Rightarrow> db_error + rat" where
  "decimal p s x =
     (let r = rat_of_int (round_half_away (x * 10 ^ s)) / 10 ^ s
      in if 10 ^ (p - s) \<le> \<bar>r\<bar> then Inl NumericOverflow else Inr r)"

fun decimal_null :: "nat \<Rightarrow> nat \<Rightarrow> rat option \<Rightarrow> db_error + rat option" where
  "decimal_null p s None = Inr None"
| "decimal_null p s (Some x) = then_do (decimal p s x) (\<lambda>r. Inr (Some r))"

text \<open>
  \<open>VARCHAR(n)\<close>: a longer string is refused, unless all it has beyond \<open>n\<close> characters
  is spaces, which are cut off.  (A \<open>char\<close> is a byte; the strings here are ASCII.)
\<close>

definition varchar :: "nat \<Rightarrow> string \<Rightarrow> db_error + string" where
  "varchar n s =
     (if length s \<le> n then Inr s
      else if list_all (\<lambda>c. c = CHR '' '') (drop n s) then Inr (take n s)
      else Inl StringTooLong)"

fun varchar_null :: "nat \<Rightarrow> string option \<Rightarrow> db_error + string option" where
  "varchar_null n None = Inr None"
| "varchar_null n (Some s) = then_do (varchar n s) (\<lambda>r. Inr (Some r))"

text \<open>\<open>CHECK (column IN (...))\<close>, which NULL passes, and a foreign key, which NULL passes too.\<close>

definition check_in :: "string list \<Rightarrow> string \<Rightarrow> db_error + string" where
  "check_in allowed s = (if s \<in> set allowed then Inr s else Inl CheckViolation)"

fun check_in_null :: "string list \<Rightarrow> string option \<Rightarrow> db_error + string option" where
  "check_in_null allowed None = Inr None"
| "check_in_null allowed (Some s) = then_do (check_in allowed s) (\<lambda>r. Inr (Some r))"

definition references :: "string list \<Rightarrow> string \<Rightarrow> db_error + string" where
  "references keys k = (if k \<in> set keys then Inr k else Inl ForeignKeyViolation)"

fun references_null :: "string list \<Rightarrow> string option \<Rightarrow> db_error + string option" where
  "references_null keys None = Inr None"
| "references_null keys (Some k) = then_do (references keys k) (\<lambda>r. Inr (Some r))"

definition primary_key :: "string list \<Rightarrow> string \<Rightarrow> db_error + string" where
  "primary_key keys k = (if k \<in> set keys then Inl UniqueViolation else Inr k)"

text \<open>
  The rows.  Money is the exact decimal the store holds (\<open>rat\<close>).  The dates of
  invoices and payments go through the handlers untouched and stay strings; a date of
  the deadline tables (a DATE column, or a string \<open>YYYY-MM-DD\<close> of a request) is the
  number of its day, counted from 1970-01-01 as day 0.  Left out are the timestamps
  \<open>created_at\<close> and \<open>updated_at\<close> and the columns no handler modelled here touches.
  Of the columns the schema lets be NULL, those are optional that a handler can write
  NULL into; \<open>amount_paid\<close>, \<open>retainage_amount\<close>, \<open>payment_status\<close> and the \<open>status\<close>
  of a deadline start at their defaults and are only ever overwritten with values.
\<close>

record project =
  proj_id :: string
  proj_user_id :: string
  project_name :: string
  general_contractor :: string
  work_start_date :: "int option"
  work_end_date :: "int option"

record invoice =
  inv_id :: string
  inv_user_id :: string
  inv_project_id :: "string option"
  invoice_number :: string
  invoice_date :: string
  due_date :: string
  amount :: rat
  retainage_percent :: "rat option"
  retainage_amount :: rat
  amount_paid :: rat
  payment_status :: string
  paid_date :: "string option"
  inv_description :: "string option"
  inv_notes :: "string option"

record payment =
  pay_id :: string
  pay_invoice_id :: string
  payment_date :: string
  pay_amount :: rat
  payment_method :: "string option"
  check_number :: "string option"
  pay_notes :: "string option"

record deadline =
  dl_id :: string
  dl_user_id :: string
  dl_project_id :: "string option"
  deadline_type :: string
  deadline_date :: int
  trigger_date :: "int option"
  title :: string
  dl_description :: "string option"
  dl_status :: string
  dl_priority :: "string option"
  dl_notes :: "string option"
  completed_date :: "int option"

record lien_rule =
  rule_type :: string
  rule_project_type :: string
  deadline_days :: int
  rule_description :: string
  trigger_event :: string
  statutory_reference :: "string option"

record database =
  users :: "string list"
  projects :: "project list"
  invoices :: "invoice list"
  payments :: "payment list"
  deadlines :: "deadline list"
  colorado_lien_rules :: "lien_rule list"

text \<open>The lists of the CHECK constraints and the DEFAULT clauses the handlers rely on.\<close>

definition payment_statuses :: "string list" where
  "payment_statuses = [''pending'', ''partial'', ''paid'', ''overdue'']"

definition deadline_types :: "string list" where
  "deadline_types =
     [''preliminary_notice'', ''mechanics_lien'', ''retainage_release'', ''payment_bond_claim'', ''custom'']"

definition deadline_statuses :: "string list" where
  "deadline_statuses = [''pending'', ''completed'', ''cancelled'']"

definition priorities :: "string list" where
  "priorities = [''low'', ''normal'', ''high'', ''critical'']"

definition default_amount_paid :: rat where
  "default_amount_paid = 0"

definition default_payment_status :: string where
  "default_payment_status = ''pending''"

definition default_paid_date :: "string option" where
  "default_paid_date = None"

definition default_status :: string where
  "default_status = ''pending''"

definition default_completed_date :: "int option" where
  "default_completed_date = None"

definition default_notes :: "string option" where
  "default_notes = None"

text \<open>The rows the schema file inserts into colorado\_lien\_rules.\<close>

definition seeded_rules :: "lien_rule list" where
  "seeded_rules =
     [\<lparr>rule_type = ''preliminary_notice'', rule_project_type = ''private'', deadline_days = 10,
       rule_description = ''Preliminary notice must be sent within 10 days of first furnishing labor or materials'',
       trigger_event = ''first_work_date'',
       statutory_reference = Some (''C.R.S. '' @ [CHR 0xC2, CHR 0xA7] @ '' 38-22-109'')\<rparr>,
      \<lparr>rule_type = ''mechanics_lien'', rule_project_type = ''private'', deadline_days = 120,
       rule_description = ''Mechanics lien must be filed within 4 months (120 days) from the last day labor or materials were furnished'',
       trigger_event = ''last_work_date'',
       statutory_reference = Some (''C.R.S. '' @ [CHR 0xC2, CHR 0xA7] @ '' 38-22-109'')\<rparr>,
      \<lparr>rule_type = ''mechanics_lien'', rule_project_type = ''public'', deadline_days = 120,
       rule_description = ''Payment bond claim must be made within 4 months from last furnishing'',
       trigger_event = ''last_work_date'',
       statutory_reference = Some (''C.R.S. '' @ [CHR 0xC2, CHR 0xA7] @ '' 38-26-107'')\<rparr>,
      \<lparr>rule_type = ''retainage_release'', rule_project_type = ''private'', deadline_days = 60,
       rule_description = ''Retainage typically released 30-60 days after project completion'',
       trigger_event = ''project_completion'',
       statutory_reference = Some ''Contract Terms''\<rparr>]"

text \<open>The INSERTs: the row as the statement gives it, checked column by column.\<close>

definition insert_invoice :: "invoice \<Rightarrow> database \<Rightarrow> db_error + invoice list \<times> database" where
  "insert_invoice i d =
     then_do (primary_key (map inv_id (invoices d)) (inv_id i)) (\<lambda>k.
     then_do (references (users d) (inv_user_id i)) (\<lambda>u.
     then_do (references_null (map proj_id (projects d)) (inv_project_id i)) (\<lambda>p.
     then_do (varchar 100 (invoice_number i)) (\<lambda>n.
     then_do (decimal 12 2 (amount i)) (\<lambda>a.
     then_do (decimal_null 5 2 (retainage_percent i)) (\<lambda>rp.
     then_do (decimal 12 2 (retainage_amount i)) (\<lambda>ra.
     then_do (decimal 12 2 (amount_paid i)) (\<lambda>ap.
     then_do (check_in payment_statuses (payment_status i)) (\<lambda>s.
       (let i' = i\<lparr>invoice_number := n, amount := a, retainage_percent := rp,
                   retainage_amount := ra, amount_paid := ap\<rparr>
        in Inr ([i'], d\<lparr>invoices := invoices d @ [i']\<rparr>)))))))))))"

definition insert_payment :: "payment \<Rightarrow> database \<Rightarrow> db_error + payment list \<times> database" where
  "insert_payment p d =
     then_do (primary_key (map pay_id (payments d)) (pay_id p)) (\<lambda>k.
     then_do (references (map inv_id (invoices d)) (pay_invoice_id p)) (\<lambda>i.
     then_do (decimal 12 2 (pay_amount p)) (\<lambda>a.
     then_do (varchar_null 50 (payment_method p)) (\<lambda>m.
     then_do (varchar_null 100 (check_number p)) (\<lambda>c.
       (let p' = p\<lparr>pay_amount := a, payment_method := m, check_number := c\<rparr>
        in Inr ([p'], d\<lparr>payments := payments d @ [p']\<rparr>)))))))"

definition insert_deadline :: "deadline \<Rightarrow> database \<Rightarrow> db_error + deadline list \<times> database" where
  "insert_deadline r d =
     then_do (primary_key (map dl_id (deadlines d)) (dl_id r)) (\<lambda>k.
     then_do (references (users d) (dl_user_id r)) (\<lambda>u.
     then_do (references_null (map proj_id (projects d)) (dl_project_id r)) (\<lambda>p.
     then_do (check_in deadline_types (deadline_type r)) (\<lambda>ty.
     then_do (varchar 255 (title r)) (\<lambda>t.
     then_do (check_in deadline_statuses (dl_status r)) (\<lambda>s.
     then_do (check_in_null priorities (dl_priority r)) (\<lambda>pr.
       (let r' = r\<lparr>title := t\<rparr>
        in Inr ([r'], d\<lparr>deadlines := deadlines d @ [r']\<rparr>)))))))))"

text \<open>
  \<open>UPDATE t SET ... WHERE cond RETURNING *\<close>: the new table and the rows returned;
  the statement fails when the new value of a row it touches is refused.
\<close>

fun update_where :: "('a \<Rightarrow> bool) \<Rightarrow> ('a \<Rightarrow> db_error + 'a) \<Rightarrow> 'a list \<Rightarrow> db_error + 'a list \<times> 'a list" where
  "update_where cond f [] = Inr ([], [])"
| "update_where cond f (r # rs) =
     (if cond r
      then then_do (f r) (\<lambda>r'.
           then_do (update_where cond f rs) (\<lambda>(returned, table). Inr (r' # returned, r' # table)))
      else then_do (update_where cond f rs) (\<lambda>(returned, table). Inr (returned, r # table)))"

subsection \<open>utils/database.ts\<close>

text \<open>
  \<open>query\<close> runs one statement on the pool, outside any transaction: the statement
  commits by itself when it succeeds, and \<open>query\<close> rethrows when the pool or the
  statement throws.  Which calls of a request the pool fails is the environment's
  choice: \<open>fs\<close> lists them, the calls of one request numbered from 0 in the order the
  handler makes them.
\<close>

definition query ::
  "nat list \<Rightarrow> nat \<Rightarrow> (database \<Rightarrow> db_error + 'r \<times> database) \<Rightarrow> database \<Rightarrow> db_error + 'r \<times> database" where
  "query fs n stmt d = (if n \<in> set fs then Inl ConnectionError else stmt d)"

text \<open>
  \<open>transaction\<close>: BEGIN, the callback, COMMIT; when the callback throws, ROLLBACK
  restores the store and the error is thrown again.  No route calls it.
\<close>

definition transaction ::
  "(database \<Rightarrow> db_error + ('r \<times> database)) \<Rightarrow> database \<Rightarrow> (db_error + 'r) \<times> database" where
  "transaction callback d =
     (case callback d of
        Inl e \<Rightarrow> (Inl e, d)
      | Inr (r, d') \<Rightarrow> (Inr r, d'))"

section \<open>routes/invoices.ts\<close>

subsection \<open>POST /:id/payments\<close>

record payment_body =
  paymentDate :: "string js"
  pb_amount :: "rat js"
  paymentMethod :: "string js"
  checkNumber :: "string js"
  pb_notes :: "string js"

text \<open>
  The SET clause of the UPDATE on one row.  Every right-hand side of an SQL SET reads
  the row as it was before the statement, and \<open>$1\<close> is a numeric of any scale: the
  two CASEs compare the old balance plus the amount as sent, while the new
  \<open>amount_paid\<close> is that sum as the column \<open>DECIMAL(12, 2)\<close> takes it.
\<close>

definition pay_invoice_row :: "rat \<Rightarrow> string \<Rightarrow> invoice \<Rightarrow> db_error + invoice" where
  "pay_invoice_row x date i =
     then_do (decimal 12 2 (amount_paid i + x)) (\<lambda>paid.
       Inr (i\<lparr>amount_paid := paid,
              payment_status :=
                (if amount_paid i + x \<ge> amount i then ''paid''
                 else if amount_paid i + x > 0 then ''partial''
                 else ''pending''),
              paid_date :=
                (if amount_paid i + x \<ge> amount i then Some date
                 else paid_date i)\<rparr>))"

definition update_invoice_payment :: "rat \<Rightarrow> string \<Rightarrow> string \<Rightarrow> database \<Rightarrow> db_error + unit \<times> database" where
  "update_invoice_payment x date invoiceId d =
     then_do (update_where (\<lambda>i. inv_id i = invoiceId) (pay_invoice_row x date) (invoices d))
       (\<lambda>(returned, table). Inr ((), d\<lparr>invoices := table\<rparr>))"

text \<open>
  The handler; \<open>paymentId\<close> is the identifier \<open>uuidv4()\<close> draws.  The second
  \<open>query\<close> runs on the store the first one has already committed to.
\<close>

definition recordPayment ::
  "nat list \<Rightarrow> string \<Rightarrow> string \<Rightarrow> payment_body \<Rightarrow> database \<Rightarrow> payment reply \<times> database" where
  "recordPayment fs paymentId invoiceId b d =
     (case (paymentDate b, pb_amount b) of
        (Val date, Val x) \<Rightarrow>
          if \<not> truthy_str (paymentDate b) \<or> \<not> truthy_num (pb_amount b)
          then (BadRequest ''paymentDate and amount are required'', d)
          else
            (case query fs 0 (insert_payment
                    \<lparr>pay_id = paymentId, pay_invoice_id = invoiceId, payment_date = date,
                     pay_amount = x, payment_method = sql_param (paymentMethod b),
                     check_number = sql_param (checkNumber b), pay_notes = sql_param (pb_notes b)\<rparr>) d of
               Inl e \<Rightarrow> (ServerError ''Failed to add payment'', d)
             | Inr (paymentResult, d1) \<Rightarrow>
                 (case query fs 1 (update_invoice_payment x date invoiceId) d1 of
                    Inl e \<Rightarrow> (ServerError ''Failed to add payment'', d1)
                  | Inr (u, d2) \<Rightarrow> (Created (hd paymentResult), d2)))
      | _ \<Rightarrow> (BadRequest ''paymentDate and amount are required'', d))"

subsection \<open>POST /\<close>

record invoice_body =
  userId :: "string js"
  projectId :: "string js"
  invoiceNumber :: "string js"
  invoiceDate :: "string js"
  dueDate :: "string js"
  ib_amount :: "rat js"
  retainagePercent :: "rat js"
  ib_description :: "string js"
  ib_notes :: "string js"

text \<open>
  In arithmetic \<open>null\<close> counts as 0.  \<open>(amount * retainagePercent) / 100\<close> is computed
  in the double arithmetic of the runtime: it is 0 when a factor is 0, and otherwise the
  number \<open>fp amount retainagePercent\<close>, where \<open>fp\<close> stands for that arithmetic
  (the result as the decimal the driver sends).
\<close>

fun js_number :: "rat js \<Rightarrow> rat" where
  "js_number (Val x) = x"
| "js_number _ = 0"

definition times_percent :: "(rat \<Rightarrow> rat \<Rightarrow> rat) \<Rightarrow> rat js \<Rightarrow> rat js \<Rightarrow> rat" where
  "times_percent fp a p =
     (if js_number a = 0 then 0
      else if js_number p = 0 then 0
      else fp (js_number a) (js_number p))"

text \<open>The arithmetic without rounding, for examples whose numbers doubles hold exactly.\<close>

definition exact :: "rat \<Rightarrow> rat \<Rightarrow> rat" where
  "exact a p = (a * p) / 100"

text \<open>
  The handler; \<open>newId\<close> is the identifier \<open>uuidv4()\<close> draws, and
  \<open>retainagePercent = 0\<close> in the destructuring replaces an absent field only.  The
  columns the INSERT does not name take their DEFAULT.
\<close>

definition createInvoice ::
  "(rat \<Rightarrow> rat \<Rightarrow> rat) \<Rightarrow> nat list \<Rightarrow> string \<Rightarrow> invoice_body \<Rightarrow> database \<Rightarrow> invoice reply \<times> database" where
  "createInvoice fp fs newId b d =
     (let retainagePercent' = (case retainagePercent b of Undefined \<Rightarrow> Val 0 | v \<Rightarrow> v) in
      if \<not> truthy_str (userId b) \<or> \<not> truthy_str (invoiceNumber b) \<or> \<not> truthy_str (invoiceDate b)
         \<or> \<not> truthy_str (dueDate b) \<or> \<not> truthy_num (ib_amount b)
      then (BadRequest ''userId, invoiceNumber, invoiceDate, dueDate, and amount are required'', d)
      else
        (let retainageAmount = times_percent fp (ib_amount b) retainagePercent' in
         case query fs 0 (insert_invoice
                \<lparr>inv_id = newId, inv_user_id = val_or [] (userId b),
                 inv_project_id = sql_param (projectId b),
                 invoice_number = val_or [] (invoiceNumber b),
                 invoice_date = val_or [] (invoiceDate b), due_date = val_or [] (dueDate b),
                 amount = js_number (ib_amount b), retainage_percent = sql_param retainagePercent',
                 retainage_amount = retainageAmount, amount_paid = default_amount_paid,
                 payment_status = default_payment_status, paid_date = default_paid_date,
                 inv_description = sql_param (ib_description b),
                 inv_notes = sql_param (ib_notes b)\<rparr>) d of
           Inl e \<Rightarrow> (ServerError ''Failed to create invoice'', d)
         | Inr (result, d1) \<Rightarrow> (Created (hd result), d1)))"

subsection \<open>PUT /:id\<close>

record invoice_update =
  u_invoiceNumber :: "string js"
  u_invoiceDate :: "string js"
  u_dueDate :: "string js"
  u_amount :: "rat js"
  u_retainagePercent :: "rat js"
  u_paymentStatus :: "string js"
  u_paidDate :: "string js"
  u_description :: "string js"
  u_notes :: "string js"

text \<open>
  ``Calculate retainage if amount or percent changes'', says the handler's comment; its
  test is \<open>amount !== undefined && retainagePercent !== undefined\<close>, and otherwise
  \<open>retainageAmount\<close> stays \<open>undefined\<close>.
\<close>

definition retainageAmount_of :: "(rat \<Rightarrow> rat \<Rightarrow> rat) \<Rightarrow> invoice_update \<Rightarrow> rat js" where
  "retainageAmount_of fp b =
     (if u_amount b \<noteq> Undefined \<and> u_retainagePercent b \<noteq> Undefined
      then Val (times_percent fp (u_amount b) (u_retainagePercent b))
      else Undefined)"

definition update_invoice_row :: "invoice_update \<Rightarrow> rat js \<Rightarrow> invoice \<Rightarrow> db_error + invoice" where
  "update_invoice_row b retainageAmount i =
     then_do (varchar 100 (coalesce (sql_param (u_invoiceNumber b)) (invoice_number i))) (\<lambda>n.
     then_do (decimal 12 2 (coalesce (sql_param (u_amount b)) (amount i))) (\<lambda>a.
     then_do (decimal_null 5 2 (coalesce_null (sql_param (u_retainagePercent b)) (retainage_percent i))) (\<lambda>rp.
     then_do (decimal 12 2 (coalesce (sql_param retainageAmount) (retainage_amount i))) (\<lambda>ra.
     then_do (check_in payment_statuses (coalesce (sql_param (u_paymentStatus b)) (payment_status i))) (\<lambda>s.
       Inr (i\<lparr>invoice_number := n,
              invoice_date := coalesce (sql_param (u_invoiceDate b)) (invoice_date i),
              due_date := coalesce (sql_param (u_dueDate b)) (due_date i),
              amount := a,
              retainage_percent := rp,
              retainage_amount := ra,
              payment_status := s,
              paid_date := coalesce_null (sql_param (u_paidDate b)) (paid_date i),
              inv_description := coalesce_null (sql_param (u_description b)) (inv_description i),
              inv_notes := coalesce_null (sql_param (u_notes b)) (inv_notes i)\<rparr>))))))"

definition update_invoice :: "invoice_update \<Rightarrow> rat js \<Rightarrow> string \<Rightarrow> database \<Rightarrow> db_error + invoice list \<times> database" where
  "update_invoice b retainageAmount id' d =
     then_do (update_where (\<lambda>i. inv_id i = id') (update_invoice_row b retainageAmount) (invoices d))
       (\<lambda>(returned, table). Inr (returned, d\<lparr>invoices := table\<rparr>))"

definition updateInvoice ::
  "(rat \<Rightarrow> rat \<Rightarrow> rat) \<Rightarrow> nat list \<Rightarrow> string \<Rightarrow> invoice_update \<Rightarrow> database \<Rightarrow> invoice reply \<times> database" where
  "updateInvoice fp fs id' b d =
     (let retainageAmount = retainageAmount_of fp b in
      case query fs 0 (update_invoice b retainageAmount id') d of
        Inl e \<Rightarrow> (ServerError ''Failed to update invoice'', d)
      | Inr (result, d1) \<Rightarrow>
          if length result = 0 then (NotFound ''Invoice not found'', d1)
          else (Ok (hd result), d1))"

section \<open>Dates of the runtime\<close>

text \<open>
  A \<open>Date\<close> object holds a time value: the milliseconds since 1970-01-01T00:00Z.
  \<open>new Date("YYYY-MM-DD")\<close> is midnight UTC of that day, and
  \<open>toISOString().split('T')[0]\<close> is the UTC day of the time value.  \<open>getDate\<close> and
  \<open>setDate\<close> work on local time: the zone of the process gives the offset of local
  time from UTC at an instant (\<open>offset_at_utc\<close>) and at a local time
  (\<open>offset_at_local\<close>), both in milliseconds.
\<close>

definition msPerDay :: int where
  "msPerDay = 1000 * 60 * 60 * 24"

record timezone =
  offset_at_utc :: "int \<Rightarrow> int"
  offset_at_local :: "int \<Rightarrow> int"

definition Date_parse :: "int \<Rightarrow> int" where
  "Date_parse day = day * msPerDay"

definition toISODate :: "int \<Rightarrow> int" where
  "toISODate t = t div msPerDay"

text \<open>
  \<open>x.setDate(x.getDate() + n)\<close>: the local time of \<open>x\<close> moved by \<open>n\<close> days of the
  local calendar, the hour of the day kept, and turned back into a time value.
\<close>

definition setDate_plus :: "timezone \<Rightarrow> int \<Rightarrow> int \<Rightarrow> int" where
  "setDate_plus tz t n =
     (let local = t + offset_at_utc tz t;
          newDate = local + n * msPerDay
      in newDate - offset_at_local tz newDate)"

text \<open>The driver hands a DATE column over as the \<open>Date\<close> of local midnight of that day.\<close>

definition pg_date :: "timezone \<Rightarrow> int \<Rightarrow> int" where
  "pg_date tz day = day * msPerDay - offset_at_local tz (day * msPerDay)"

text \<open>A \<open>Date\<close> object is truthy, like every object.\<close>

fun truthy_object :: "'a \<Rightarrow> bool" where
  "truthy_object x = True"

fun truthy_date :: "int js \<Rightarrow> bool" where
  "truthy_date (Val s) = True"
| "truthy_date _ = False"

text \<open>The day number of a date of the Gregorian calendar, for writing examples.\<close>

definition civil_day :: "int \<Rightarrow> int \<Rightarrow> int \<Rightarrow> int" where
  "civil_day y m dd =
     (let y' = (if m \<le> 2 then y - 1 else y);
          era = y' div 400;
          yoe = y' - era * 400;
          doy = (153 * (if m > 2 then m - 3 else m + 9) + 2) div 5 + dd - 1;
          doe = yoe * 365 + yoe div 4 - yoe div 100 + doy
      in era * 146097 + doe - 719468)"

definition utc :: timezone where
  "utc = \<lparr>offset_at_utc = (\<lambda>t. 0), offset_at_local = (\<lambda>t. 0)\<rparr>"

text \<open>
  America/Denver as it stands through 2024: seven hours behind UTC, six from
  2024-03-10 02:00 local (09:00Z) to 2024-11-03 02:00 local (08:00Z).
\<close>

definition denver :: timezone where
  "denver =
     \<lparr>offset_at_utc = (\<lambda>t.
        if civil_day 2024 3 10 * msPerDay + 9 * 3600000 \<le> t
           \<and> t < civil_day 2024 11 3 * msPerDay + 8 * 3600000
        then - 6 * 3600000 else - 7 * 3600000),
      offset_at_local = (\<lambda>t.
        if civil_day 2024 3 10 * msPerDay + 3 * 3600000 \<le> t
           \<and> t < civil_day 2024 11 3 * msPerDay + 2 * 3600000
        then - 6 * 3600000 else - 7 * 3600000)\<rparr>"

section \<open>routes/deadlines.ts\<close>

subsection \<open>GET /\<close>

record deadline_view =
  dv_deadline :: deadline
  dv_project_name :: "string option"
  dv_general_contractor :: "string option"
  days_remaining :: int
  calculated_priority :: string

definition select_deadlines ::
  "string \<Rightarrow> string js \<Rightarrow> database \<Rightarrow> db_error + (deadline \<times> project option) list \<times> database" where
  "select_deadlines user status d =
     Inr (sort_key (\<lambda>r. deadline_date (fst r))
        (map (\<lambda>r. (r, find (\<lambda>p. Some (proj_id p) = dl_project_id r) (projects d)))
           (filter (\<lambda>r. dl_user_id r = user \<and> (if truthy_str status then dl_status r = val_or [] status else True))
              (deadlines d))),
      d)"

text \<open>
  The callback of \<open>result.rows.map\<close>; \<open>today\<close> is the clock's time value when the
  row is mapped.  \<open>!autoPriority\<close> holds for NULL and for the empty string.
\<close>

definition with_days :: "timezone \<Rightarrow> int \<Rightarrow> deadline \<times> project option \<Rightarrow> deadline_view" where
  "with_days tz today r =
     (let deadlineDate = pg_date tz (deadline_date (fst r));
          diffTime = deadlineDate - today;
          daysRemaining = \<lceil>rat_of_int diffTime / rat_of_int (1000 * 60 * 60 * 24)\<rceil>;
          autoPriority =
            (if dl_priority (fst r) = None \<or> dl_priority (fst r) = Some [] \<or> dl_priority (fst r) = Some ''normal''
             then (if daysRemaining < 0 then ''critical''
                   else if daysRemaining \<le> 7 then ''critical''
                   else if daysRemaining \<le> 14 then ''high''
                   else if daysRemaining \<le> 30 then ''normal''
                   else ''low'')
             else (case dl_priority (fst r) of Some s \<Rightarrow> s | None \<Rightarrow> []))
      in \<lparr>dv_deadline = fst r,
          dv_project_name = map_option project_name (snd r),
          dv_general_contractor = map_option general_contractor (snd r),
          days_remaining = daysRemaining,
          calculated_priority = autoPriority\<rparr>)"

text \<open>The handler; \<open>clock k\<close> is what \<open>new Date()\<close> reads while row \<open>k\<close> is mapped.\<close>

definition listDeadlines ::
  "timezone \<Rightarrow> (nat \<Rightarrow> int) \<Rightarrow> nat list \<Rightarrow> string js \<Rightarrow> string js \<Rightarrow> database
     \<Rightarrow> deadline_view list reply \<times> database" where
  "listDeadlines tz clock fs user status d =
     (if \<not> truthy_str user then (BadRequest ''userId is required'', d)
      else
        (case query fs 0 (select_deadlines (val_or [] user) status) d of
           Inl e \<Rightarrow> (ServerError ''Failed to fetch deadlines'', d)
         | Inr (result, d1) \<Rightarrow>
             (Ok (map (\<lambda>(k, r). with_days tz (clock k) r) (enumerate 0 result)), d1)))"

subsection \<open>POST /\<close>

record deadline_body =
  db_userId :: "string js"
  db_projectId :: "string js"
  db_deadlineType :: "string js"
  db_deadlineDate :: "int js"
  db_triggerDate :: "int js"
  db_title :: "string js"
  db_description :: "string js"
  db_priority :: "string js"
  db_notes :: "string js"

text \<open>
  The handler; \<open>newId\<close> is the identifier \<open>uuidv4()\<close> draws.  The columns the
  INSERT does not name take their DEFAULT.
\<close>

definition createDeadline ::
  "nat list \<Rightarrow> string \<Rightarrow> deadline_body \<Rightarrow> database \<Rightarrow> deadline reply \<times> database" where
  "createDeadline fs newId b d =
     (let priority = (case db_priority b of Undefined \<Rightarrow> Val ''normal'' | v \<Rightarrow> v) in
      if \<not> truthy_str (db_userId b) \<or> \<not> truthy_str (db_deadlineType b)
         \<or> \<not> truthy_date (db_deadlineDate b) \<or> \<not> truthy_str (db_title b)
      then (BadRequest ''userId, deadlineType, deadlineDate, and title are required'', d)
      else
        (case query fs 0 (insert_deadline
                \<lparr>dl_id = newId, dl_user_id = val_or [] (db_userId b),
                 dl_project_id = sql_param (db_projectId b),
                 deadline_type = val_or [] (db_deadlineType b),
                 deadline_date = val_or 0 (db_deadlineDate b),
                 trigger_date = sql_param (db_triggerDate b),
                 title = val_or [] (db_title b),
                 dl_description = sql_param (db_description b),
                 dl_status = default_status, dl_priority = sql_param priority,
                 dl_notes = sql_param (db_notes b), completed_date = default_completed_date\<rparr>) d of
           Inl e \<Rightarrow> (ServerError ''Failed to create deadline'', d)
         | Inr (result, d1) \<Rightarrow> (Created (hd result), d1)))"

subsection \<open>POST /calculate\<close>

record calculate_body =
  deadlineType :: "string js"
  triggerDate :: "int js"
  projectType :: "string js"

record calculation =
  deadlineDate :: int
  deadlineDays :: int
  description :: string
  triggerEvent :: string
  statutoryReference :: "string option"

text \<open>A comparison with NULL selects no row, so a \<open>null\<close> project type finds no rule.\<close>

definition select_rule :: "string js \<Rightarrow> string js \<Rightarrow> database \<Rightarrow> db_error + lien_rule list \<times> database" where
  "select_rule ruleType projType d =
     Inr (take 1 (filter (\<lambda>r. Some (rule_type r) = sql_param ruleType \<and> Some (rule_project_type r) = sql_param projType)
        (colorado_lien_rules d)),
      d)"

definition calculate ::
  "timezone \<Rightarrow> nat list \<Rightarrow> calculate_body \<Rightarrow> database \<Rightarrow> calculation reply \<times> database" where
  "calculate tz fs b d =
     (let projectType' = (case projectType b of Undefined \<Rightarrow> Val ''private'' | v \<Rightarrow> v) in
      if \<not> truthy_str (deadlineType b) \<or> \<not> truthy_date (triggerDate b)
      then (BadRequest ''deadlineType and triggerDate are required'', d)
      else
        (case query fs 0 (select_rule (deadlineType b) projectType') d of
           Inl e \<Rightarrow> (ServerError ''Failed to calculate deadline'', d)
         | Inr (ruleResult, d1) \<Rightarrow>
             if length ruleResult = 0
             then (NotFound ''No Colorado lien law rule found for this deadline type'', d1)
             else
               (let rule = hd ruleResult;
                    trigger = Date_parse (val_or 0 (triggerDate b));
                    deadline = setDate_plus tz trigger (deadline_days rule)
                in (Ok \<lparr>deadlineDate = toISODate deadline,
                         deadlineDays = deadline_days rule,
                         description = rule_description rule,
                         triggerEvent = trigger_event rule,
                         statutoryReference = statutory_reference rule\<rparr>, d1))))"

subsection \<open>POST /auto-create\<close>

record auto_create_body =
  ac_userId :: "string js"
  ac_projectId :: "string js"
  workStartDate :: "int js"
  workEndDate :: "int js"
  ac_projectType :: "string js"

definition select_project :: "string \<Rightarrow> database \<Rightarrow> db_error + project list \<times> database" where
  "select_project pid d = Inr (filter (\<lambda>p. proj_id p = pid) (projects d), d)"

text \<open>
  \<open>new Date(workStartDate || project.work_start_date)\<close>: the string of the request
  when there is one, else the column of the project, which the driver hands over as a
  \<open>Date\<close> or as \<open>null\<close>; \<open>new Date(null)\<close> is the time value 0.
\<close>

definition startDate_of :: "timezone \<Rightarrow> int js \<Rightarrow> project \<Rightarrow> int" where
  "startDate_of tz start project =
     (if truthy_date start then Date_parse (val_or 0 start)
      else (case work_start_date project of
              Some day \<Rightarrow> pg_date tz day
            | None \<Rightarrow> 0))"

definition endDate_of :: "int js \<Rightarrow> int option" where
  "endDate_of end = (if truthy_date end then Some (Date_parse (val_or 0 end)) else None)"

definition prelim_row :: "timezone \<Rightarrow> string \<Rightarrow> string \<Rightarrow> string \<Rightarrow> project \<Rightarrow> int \<Rightarrow> deadline" where
  "prelim_row tz prelimId user pid project startDate =
     (let prelimDeadline = setDate_plus tz startDate 10 in
      \<lparr>dl_id = prelimId, dl_user_id = user, dl_project_id = Some pid,
       deadline_type = ''preliminary_notice'',
       deadline_date = toISODate prelimDeadline,
       trigger_date = Some (toISODate startDate),
       title = ''Preliminary Notice - '' @ project_name project,
       dl_description = Some ''Send preliminary notice within 10 days of starting work (Colorado law)'',
       dl_status = default_status, dl_priority = Some ''high'',
       dl_notes = default_notes, completed_date = default_completed_date\<rparr>)"

definition lien_row :: "timezone \<Rightarrow> string \<Rightarrow> string \<Rightarrow> string \<Rightarrow> project \<Rightarrow> string js \<Rightarrow> int \<Rightarrow> deadline" where
  "lien_row tz lienId user pid project projType endDate =
     (let lienDeadline = setDate_plus tz endDate 120 in
      \<lparr>dl_id = lienId, dl_user_id = user, dl_project_id = Some pid,
       deadline_type = (if projType = Val ''private'' then ''mechanics_lien'' else ''payment_bond_claim''),
       deadline_date = toISODate lienDeadline,
       trigger_date = Some (toISODate endDate),
       title = (if projType = Val ''private'' then ''Mechanics Lien'' else ''Payment Bond Claim'')
                 @ '' Filing - '' @ project_name project,
       dl_description = Some (''File '' @ (if projType = Val ''private'' then ''mechanics lien'' else ''payment bond claim'')
                 @ '' within 4 months of last work (Colorado law)''),
       dl_status = default_status, dl_priority = Some ''critical'',
       dl_notes = default_notes, completed_date = default_completed_date\<rparr>)"

text \<open>
  The handler; \<open>prelimId\<close> and \<open>lienId\<close> are the identifiers \<open>uuidv4()\<close> draws.
  The test of the first block is \<open>startDate && projectType === 'private'\<close>, with
  \<open>startDate\<close> a \<open>Date\<close> object; the second INSERT is the handler's third query when
  the first block ran, and its second otherwise.
\<close>

definition autoCreate ::
  "timezone \<Rightarrow> nat list \<Rightarrow> string \<Rightarrow> string \<Rightarrow> auto_create_body \<Rightarrow> database
     \<Rightarrow> deadline list reply \<times> database" where
  "autoCreate tz fs prelimId lienId b d =
     (let projectType' = (case ac_projectType b of Undefined \<Rightarrow> Val ''private'' | v \<Rightarrow> v) in
      if \<not> truthy_str (ac_userId b) \<or> \<not> truthy_str (ac_projectId b)
      then (BadRequest ''userId and projectId are required'', d)
      else
        (case query fs 0 (select_project (val_or [] (ac_projectId b))) d of
           Inl e \<Rightarrow> (ServerError ''Failed to auto-create deadlines'', d)
         | Inr (projectResult, d0) \<Rightarrow>
             if length projectResult = 0 then (NotFound ''Project not found'', d0)
             else
               (let project = hd projectResult;
                    startDate = startDate_of tz (workStartDate b) project;
                    endDate = endDate_of (workEndDate b)
                in
                  (case (if truthy_object startDate \<and> projectType' = Val ''private''
                         then (case query fs 1 (insert_deadline
                                   (prelim_row tz prelimId (val_or [] (ac_userId b))
                                      (val_or [] (ac_projectId b)) project startDate)) d0 of
                                 Inl e \<Rightarrow> Inl d0
                               | Inr (prelimResult, d1) \<Rightarrow> Inr ([hd prelimResult], 2, d1))
                         else Inr ([], 1, d0)) of
                     Inl dfail \<Rightarrow> (ServerError ''Failed to auto-create deadlines'', dfail)
                   | Inr (createdDeadlines, n, d1) \<Rightarrow>
                       (case endDate of
                          None \<Rightarrow> (Created createdDeadlines, d1)
                        | Some endDate' \<Rightarrow>
                            (case query fs n (insert_deadline
                                   (lien_row tz lienId (val_or [] (ac_userId b))
                                      (val_or [] (ac_projectId b)) project projectType' endDate')) d1 of
                               Inl e \<Rightarrow> (ServerError ''Failed to auto-create deadlines'', d1)
                             | Inr (lienResult, d2) \<Rightarrow>
                                 (Created (createdDeadlines @ [hd lienResult]), d2)))))))"

subsection \<open>PUT /:id, POST /:id/complete and DELETE /:id\<close>

record deadline_update =
  du_deadlineDate :: "int js"
  du_title :: "string js"
  du_description :: "string js"
  du_status :: "string js"
  du_priority :: "string js"
  du_notes :: "string js"
  du_completedDate :: "int js"

definition update_deadline_row :: "deadline_update \<Rightarrow> deadline \<Rightarrow> db_error + deadline" where
  "update_deadline_row b r =
     then_do (varchar 255 (coalesce (sql_param (du_title b)) (title r))) (\<lambda>t.
     then_do (check_in deadline_statuses (coalesce (sql_param (du_status b)) (dl_status r))) (\<lambda>s.
     then_do (check_in_null priorities (coalesce_null (sql_param (du_priority b)) (dl_priority r))) (\<lambda>pr.
       Inr (r\<lparr>deadline_date := coalesce (sql_param (du_deadlineDate b)) (deadline_date r),
              title := t,
              dl_description := coalesce_null (sql_param (du_description b)) (dl_description r),
              dl_status := s,
              dl_priority := pr,
              dl_notes := coalesce_null (sql_param (du_notes b)) (dl_notes r),
              completed_date := coalesce_null (sql_param (du_completedDate b)) (completed_date r)\<rparr>))))"

definition update_rows ::
  "(deadline \<Rightarrow> db_error + deadline) \<Rightarrow> string \<Rightarrow> database \<Rightarrow> db_error + deadline list \<times> database" where
  "update_rows f id' d =
     then_do (update_where (\<lambda>r. dl_id r = id') f (deadlines d))
       (\<lambda>(returned, table). Inr (returned, d\<lparr>deadlines := table\<rparr>))"

definition updateDeadline ::
  "nat list \<Rightarrow> string \<Rightarrow> deadline_update \<Rightarrow> database \<Rightarrow> deadline reply \<times> database" where
  "updateDeadline fs id' b d =
     (case query fs 0 (update_rows (update_deadline_row b) id') d of
        Inl e \<Rightarrow> (ServerError ''Failed to update deadline'', d)
      | Inr (result, d1) \<Rightarrow>
          if length result = 0 then (NotFound ''Deadline not found'', d1)
          else (Ok (hd result), d1))"

text \<open>\<open>today\<close> is the store's \<open>CURRENT_DATE\<close>.\<close>

definition complete_row :: "int \<Rightarrow> deadline \<Rightarrow> db_error + deadline" where
  "complete_row today r = Inr (r\<lparr>dl_status := ''completed'', completed_date := Some today\<rparr>)"

definition completeDeadline ::
  "int \<Rightarrow> nat list \<Rightarrow> string \<Rightarrow> database \<Rightarrow> deadline reply \<times> database" where
  "completeDeadline today fs id' d =
     (case query fs 0 (update_rows (complete_row today) id') d of
        Inl e \<Rightarrow> (ServerError ''Failed to complete deadline'', d)
      | Inr (result, d1) \<Rightarrow>
          if length result = 0 then (NotFound ''Deadline not found'', d1)
          else (Ok (hd result), d1))"

definition delete_rows :: "string \<Rightarrow> database \<Rightarrow> db_error + deadline list \<times> database" where
  "delete_rows id' d =
     Inr (filter (\<lambda>r. dl_id r = id') (deadlines d),
          d\<lparr>deadlines := filter (\<lambda>r. dl_id r \<noteq> id') (deadlines d)\<rparr>)"

definition deleteDeadline ::
  "nat list \<Rightarrow> string \<Rightarrow> database \<Rightarrow> string reply \<times> database" where
  "deleteDeadline fs id' d =
     (case query fs 0 (delete_rows id') d of
        Inl e \<Rightarrow> (ServerError ''Failed to delete deadline'', d)
      | Inr (result, d1) \<Rightarrow>
          if length result = 0 then (NotFound ''Deadline not found'', d1)
          else (Ok ''Deadline deleted successfully'', d1))"

text \<open>The data model's invariant of a deadline row.\<close>

definition completed_iff_dated :: "deadline \<Rightarrow> bool" where
  "completed_iff_dated r = ((completed_date r \<noteq> None) = (dl_status r = ''completed''))"

section \<open>Whole cents\<close>

text \<open>A number with at most two decimals, as every value of a \<open>DECIMAL(12, 2)\<close> column is.\<close>

definition whole_cents :: "rat \<Rightarrow> bool" where
  "whole_cents x = (rat_of_int \<lfloor>x * 100\<rfloor> = x * 100)"

section \<open>Example rows and requests\<close>

text \<open>The invoice of 1000 with nothing paid, and the same invoice once it is paid in full.\<close>

definition open_invoice :: invoice where
  "open_invoice =
     \<lparr>inv_id = ''inv-1'', inv_user_id = ''user-1'', inv_project_id = None,
      invoice_number = ''A-100'', invoice_date = ''2024-01-02'', due_date = ''2024-02-01'',
      amount = 1000, retainage_percent = Some 10, retainage_amount = 100, amount_paid = 0,
      payment_status = ''pending'', paid_date = None,
      inv_description = None, inv_notes = None\<rparr>"

definition settled_invoice :: invoice where
  "settled_invoice =
     open_invoice\<lparr>amount_paid := 1000, payment_status := ''paid'', paid_date := Some ''2024-02-01''\<rparr>"

definition open_ledger :: database where
  "open_ledger =
     \<lparr>users = [''user-1''], projects = [], invoices = [open_invoice], payments = [],
      deadlines = [], colorado_lien_rules = seeded_rules\<rparr>"

definition settled_ledger :: database where
  "settled_ledger = open_ledger\<lparr>invoices := [settled_invoice]\<rparr>"

definition payment_of :: "string \<Rightarrow> rat \<Rightarrow> payment_body" where
  "payment_of date x =
     \<lparr>paymentDate = Val date, pb_amount = Val x, paymentMethod = Val ''check'',
      checkNumber = Undefined, pb_notes = Undefined\<rparr>"

definition no_update :: invoice_update where
  "no_update =
     \<lparr>u_invoiceNumber = Undefined, u_invoiceDate = Undefined, u_dueDate = Undefined,
      u_amount = Undefined, u_retainagePercent = Undefined, u_paymentStatus = Undefined,
      u_paidDate = Undefined, u_description = Undefined, u_notes = Undefined\<rparr>"

definition invoice_request :: "rat js \<Rightarrow> rat js \<Rightarrow> invoice_body" where
  "invoice_request a p =
     \<lparr>userId = Val ''user-1'', projectId = Undefined, invoiceNumber = Val ''A-101'',
      invoiceDate = Val ''2024-01-02'', dueDate = Val ''2024-02-01'', ib_amount = a,
      retainagePercent = p, ib_description = Undefined, ib_notes = Undefined\<rparr>"

text \<open>
  The store as the schema file leaves it, a request to the calculator, a project without
  dates, and deadline rows.
\<close>

definition rules_store :: database where
  "rules_store =
     \<lparr>users = [], projects = [], invoices = [], payments = [], deadlines = [],
      colorado_lien_rules = seeded_rules\<rparr>"

definition calculate_request :: "string \<Rightarrow> int \<Rightarrow> calculate_body" where
  "calculate_request ty day = \<lparr>deadlineType = Val ty, triggerDate = Val day, projectType = Undefined\<rparr>"

definition depot :: project where
  "depot =
     \<lparr>proj_id = ''proj-1'', proj_user_id = ''user-1'', project_name = ''Depot'',
      general_contractor = ''Summit Builders'', work_start_date = None, work_end_date = None\<rparr>"

definition project_store :: database where
  "project_store = open_ledger\<lparr>projects := [depot]\<rparr>"

definition auto_request :: "int js \<Rightarrow> int js \<Rightarrow> string js \<Rightarrow> auto_create_body" where
  "auto_request start end ty =
     \<lparr>ac_userId = Val ''user-1'', ac_projectId = Val ''proj-1'', workStartDate = start,
      workEndDate = end, ac_projectType = ty\<rparr>"

definition filing :: "string option \<Rightarrow> deadline" where
  "filing pr =
     \<lparr>dl_id = ''dl-1'', dl_user_id = ''user-1'', dl_project_id = Some ''proj-1'',
      deadline_type = ''mechanics_lien'', deadline_date = civil_day 2024 6 20,
      trigger_date = Some (civil_day 2024 2 21), title = ''Mechanics Lien Filing - Depot'',
      dl_description = None, dl_status = ''pending'', dl_priority = pr, dl_notes = None,
      completed_date = None\<rparr>"

definition deadline_store :: "string option \<Rightarrow> database" where
  "deadline_store pr = project_store\<lparr>deadlines := [filing pr]\<rparr>"

definition no_deadline_update :: deadline_update where
  "no_deadline_update =
     \<lparr>du_deadlineDate = Undefined, du_title = Undefined, du_description = Undefined,
      du_status = Undefined, du_priority = Undefined, du_notes = Undefined,
      du_completedDate = Undefined\<rparr>"

section \<open>Facts about the schema\<close>

lemma then_do_simps [simp]:
  "then_do (Inl e) f = Inl e" "then_do (Inr a) f = f a"
  by (simp_all add: then_do_def)

lemma then_do_Inr: "then_do r f = Inr y \<longleftrightarrow> (\<exists>a. r = Inr a \<and> f a = Inr y)"
  by (cases r) simp_all

text \<open>
  A whole number of cents passes a column of two decimals unchanged, and what such a column holds is a whole number of cents.
\<close>

lemma round_half_away_of_int [simp]: "round_half_away (rat_of_int n) = n"
  by (simp add: round_half_away_def) linarith

lemma whole_cents_decimal:
  assumes "whole_cents x" and "decimal p 2 x = Inr r"
  shows "r = x"
proof -
  from assms(1) have n: "x * 100 = rat_of_int \<lfloor>x * 100\<rfloor>"
    unfolding whole_cents_def by (rule sym)
  have "round_half_away (x * 100) = \<lfloor>x * 100\<rfloor>"
    by (subst n) (simp only: round_half_away_of_int floor_of_int)
  then have "rat_of_int (round_half_away (x * 100)) = x * 100"
    using n by simp
  then have "rat_of_int (round_half_away (x * 10 ^ 2)) / 10 ^ 2 = x"
    by simp
  with assms(2) show ?thesis
    by (simp add: decimal_def Let_def split: if_splits)
qed

lemma decimal_whole_cents:
  assumes "decimal p 2 x = Inr r"
  shows "whole_cents r"
proof -
  from assms have "r = rat_of_int (round_half_away (x * 100)) / 100"
    by (simp add: decimal_def Let_def split: if_splits)
  then have "r * 100 = rat_of_int (round_half_away (x * 100))"
    by simp
  then show ?thesis
    unfolding whole_cents_def by (simp only: floor_of_int)
qed

text \<open>
  Rounding never takes a sum below a whole number of cents it started from.
\<close>

lemma round_half_away_above:
  assumes "rat_of_int n \<le> y"
  shows "n \<le> round_half_away y"
  using assms by (auto simp: round_half_away_def) linarith+

lemma decimal_not_below:
  assumes "whole_cents P" and "0 \<le> x" and "decimal p 2 (P + x) = Inr r"
  shows "P \<le> r"
proof -
  from assms(1) have n: "P * 100 = rat_of_int \<lfloor>P * 100\<rfloor>"
    unfolding whole_cents_def by (rule sym)
  have "rat_of_int \<lfloor>P * 100\<rfloor> \<le> (P + x) * 100"
    using assms(2) n by (simp add: algebra_simps)
  then have "\<lfloor>P * 100\<rfloor> \<le> round_half_away ((P + x) * 100)"
    by (rule round_half_away_above)
  then have "rat_of_int \<lfloor>P * 100\<rfloor> \<le> rat_of_int (round_half_away ((P + x) * 100))"
    by simp
  then have "P * 100 \<le> rat_of_int (round_half_away ((P + x) * 100))"
    using n by simp
  moreover from assms(3) have "r = rat_of_int (round_half_away ((P + x) * 100)) / 100"
    by (simp add: decimal_def Let_def split: if_splits)
  ultimately show ?thesis
    by (simp add: pos_le_divide_eq)
qed

text \<open>
  What an UPDATE that succeeds leaves in the table and returns.
\<close>

lemma update_where_length:
  "update_where cond f rs = Inr (returned, table) \<Longrightarrow> length table = length rs"
  by (induction rs arbitrary: returned table)
    (auto simp: then_do_Inr split: if_splits prod.splits)

lemma update_where_nth:
  assumes "update_where cond f rs = Inr (returned, table)" and "k < length rs"
  shows "if cond (rs ! k) then f (rs ! k) = Inr (table ! k) else table ! k = rs ! k"
  using assms
proof (induction rs arbitrary: returned table k)
  case Nil
  then show ?case by simp
next
  case (Cons r rs)
  then show ?case
    by (cases k) (auto simp: then_do_Inr split: if_splits prod.splits)
qed

lemma update_where_returned:
  assumes "update_where cond f rs = Inr (returned, table)"
  shows "length returned = length (filter cond rs) \<and> set returned \<subseteq> set table"
  using assms
  by (induction rs arbitrary: returned table)
    (auto simp: then_do_Inr split: if_splits prod.splits)

lemma update_where_table:
  assumes "update_where cond f rs = Inr (returned, table)" and "r' \<in> set table"
  shows "\<exists>r \<in> set rs. if cond r then f r = Inr r' else r' = r"
  using assms
  by (induction rs arbitrary: returned table)
    (auto simp: then_do_Inr split: if_splits prod.splits)

section \<open>The payment ledger\<close>


lemma pay_invoice_row_Inr:
  assumes "pay_invoice_row x date i = Inr i'"
  shows "decimal 12 2 (amount_paid i + x) = Inr (amount_paid i') \<and>
     amount i' = amount i \<and> inv_id i' = inv_id i \<and>
     payment_status i' =
       (if amount_paid i + x \<ge> amount i then ''paid''
        else if amount_paid i + x > 0 then ''partial''
        else ''pending'') \<and>
     paid_date i' = (if amount_paid i + x \<ge> amount i then Some date else paid_date i)"
  using assms by (auto simp: pay_invoice_row_def then_do_Inr)

text \<open>
  What an answer of 201 says about the request and the two statements.
\<close>

lemma recordPayment_Created:
  assumes "recordPayment fs paymentId invoiceId b d = (Created p, d')"
  obtains date x returned where "paymentDate b = Val date" "pb_amount b = Val x" "date \<noteq> []" "x \<noteq> 0"
    "payment_date p = date" "decimal 12 2 x = Inr (pay_amount p)" "pay_invoice_id p = invoiceId"
    "update_where (\<lambda>i. inv_id i = invoiceId) (pay_invoice_row x date) (invoices d) = Inr (returned, invoices d')"
  using assms
  by (auto simp: recordPayment_def query_def insert_payment_def update_invoice_payment_def
      then_do_Inr Let_def split: js.splits if_splits sum.splits prod.splits)

lemma recordPayment_row:
  assumes "recordPayment fs paymentId invoiceId b d = (Created p, d')"
    and "pb_amount b = Val x"
    and "k < length (invoices d)"
    and "inv_id (invoices d ! k) = invoiceId"
  shows "pay_invoice_row x (payment_date p) (invoices d ! k) = Inr (invoices d' ! k)"
proof -
  from assms(1) obtain date y returned where "pb_amount b = Val y" "payment_date p = date"
    "update_where (\<lambda>i. inv_id i = invoiceId) (pay_invoice_row y date) (invoices d) = Inr (returned, invoices d')"
    by (rule recordPayment_Created)
  with assms(2) have "update_where (\<lambda>i. inv_id i = invoiceId) (pay_invoice_row x (payment_date p)) (invoices d) =
      Inr (returned, invoices d')"
    by simp
  from update_where_nth [OF this assms(3)] assms(4) show ?thesis
    by simp
qed



text \<open>
  A reply with status 201 is \<open>Created\<close>.
\<close>

lemma status_code_201: "status_code r = 201 \<Longrightarrow> \<exists>x. r = Created x"
  by (cases r) simp_all


text \<open>
  The invoice of 1000 after a payment of 400, and after a second one of 600.
\<close>

lemma two_payments_settle_the_invoice:
  "map (\<lambda>i. (amount_paid i, payment_status i, paid_date i))
     (invoices (snd (recordPayment [] ''pay-1'' ''inv-1'' (payment_of ''2024-03-01'' 400) open_ledger))) =
     [(400, ''partial'', None)] \<and>
   map (\<lambda>i. (amount_paid i, payment_status i, paid_date i))
     (invoices (snd (recordPayment [] ''pay-2'' ''inv-1'' (payment_of ''2024-04-01'' 600)
        (snd (recordPayment [] ''pay-1'' ''inv-1'' (payment_of ''2024-03-01'' 400) open_ledger))))) =
     [(1000, ''paid'', Some ''2024-04-01'')]"
  by code_simp

text \<open>
  When the INSERT succeeds and the UPDATE fails, be it the pool or the statement, the
  handler answers 500 with the payment row in the table and no invoice changed.
\<close>

lemma insert_payment_Inr:
  assumes "insert_payment p d = Inr (rows, d1)"
  shows "\<exists>p'. rows = [p'] \<and> payments d1 = payments d @ [p'] \<and> invoices d1 = invoices d \<and>
     pay_invoice_id p' = pay_invoice_id p \<and> decimal 12 2 (pay_amount p) = Inr (pay_amount p')"
  using assms by (auto simp: insert_payment_def then_do_Inr Let_def)

lemma recordPayment_update_fails:
  assumes "paymentDate b = Val date" and "date \<noteq> []" and "pb_amount b = Val x" and "x \<noteq> 0"
    and "0 \<notin> set fs"
    and "insert_payment
           \<lparr>pay_id = paymentId, pay_invoice_id = invoiceId, payment_date = date,
            pay_amount = x, payment_method = sql_param (paymentMethod b),
            check_number = sql_param (checkNumber b), pay_notes = sql_param (pb_notes b)\<rparr> d = Inr (rows, d1)"
    and "1 \<in> set fs \<or> update_invoice_payment x date invoiceId d1 = Inl e"
  shows "recordPayment fs paymentId invoiceId b d = (ServerError ''Failed to add payment'', d1)"
  using assms by (auto simp: recordPayment_def query_def)

text \<open>
  The helper \<open>transaction\<close> ends with the store it started from, or with the callback's.
\<close>

lemma transaction_all_or_nothing:
  "(\<exists>e. transaction callback d = (Inl e, d)) \<or>
   (\<exists>r d'. callback d = Inr (r, d') \<and> transaction callback d = (Inr r, d'))"
  by (cases "callback d") (auto simp: transaction_def)

text \<open>
  C2 (the handler at a store failure between its two writes).  The payment of 400 is
  inserted and committed, the UPDATE of the invoice throws, and the handler answers 500:
  the payment row stays in the ledger and the invoice still shows nothing paid.
\<close>

theorem recordPayment_not_atomic:
  "fst (recordPayment [1] ''pay-1'' ''inv-1'' (payment_of ''2024-03-01'' 400) open_ledger) =
     ServerError ''Failed to add payment'' \<and>
   map pay_amount (payments (snd (recordPayment [1] ''pay-1'' ''inv-1'' (payment_of ''2024-03-01'' 400) open_ledger))) = [400] \<and>
   map pay_invoice_id (payments (snd (recordPayment [1] ''pay-1'' ''inv-1'' (payment_of ''2024-03-01'' 400) open_ledger))) = [''inv-1''] \<and>
   invoices (snd (recordPayment [1] ''pay-1'' ''inv-1'' (payment_of ''2024-03-01'' 400) open_ledger)) = [open_invoice] \<and>
   amount_paid open_invoice = 0"
  by code_simp

theorem recordPayment_not_atomic_witness:
  "status_code (fst (recordPayment [1] ''pay-1'' ''inv-1'' (payment_of ''2024-03-01'' 400) open_ledger)) = 500 \<and>
   map amount_paid (invoices (snd (recordPayment [1] ''pay-1'' ''inv-1'' (payment_of ''2024-03-01'' 400) open_ledger))) = [0]"
proof -
  from recordPayment_not_atomic
  have a: "fst (recordPayment [1] ''pay-1'' ''inv-1'' (payment_of ''2024-03-01'' 400) open_ledger) =
      ServerError ''Failed to add payment''"
    and b: "invoices (snd (recordPayment [1] ''pay-1'' ''inv-1'' (payment_of ''2024-03-01'' 400) open_ledger)) =
      [open_invoice]"
    by blast+
  show ?thesis
    unfolding a b by (simp add: open_invoice_def)
qed

text \<open>
  The same without a failure of the pool: a payment of one cent on a balance of
  9999999999.99 is inserted, the new balance does not fit \<open>DECIMAL(12, 2)\<close>, the UPDATE
  is refused, and the payment row stays.
\<close>

lemma balance_overflow_keeps_the_payment:
  "status_code (fst (recordPayment [] ''pay-1'' ''inv-1'' (payment_of ''2024-03-01'' (1 / 100))
      (open_ledger\<lparr>invoices := [open_invoice\<lparr>amount := 9999999999, amount_paid := 9999999999 + 99 / 100\<rparr>]\<rparr>))) = 500 \<and>
   map pay_amount (payments (snd (recordPayment [] ''pay-1'' ''inv-1'' (payment_of ''2024-03-01'' (1 / 100))
      (open_ledger\<lparr>invoices := [open_invoice\<lparr>amount := 9999999999, amount_paid := 9999999999 + 99 / 100\<rparr>]\<rparr>)))) = [1 / 100] \<and>
   map amount_paid (invoices (snd (recordPayment [] ''pay-1'' ''inv-1'' (payment_of ''2024-03-01'' (1 / 100))
      (open_ledger\<lparr>invoices := [open_invoice\<lparr>amount := 9999999999, amount_paid := 9999999999 + 99 / 100\<rparr>]\<rparr>)))) =
     [9999999999 + 99 / 100]"
  by code_simp

text \<open>
  C6, as the claim states it, fails: a further payment of 100 on the invoice that is
  already paid in full (paid on 2024-02-01) is accepted and moves \<open>paid_date\<close> to the
  date of that payment.
\<close>

theorem paid_date_overwritten_when_already_paid:
  "amount settled_invoice \<le> amount_paid settled_invoice \<and>
   paid_date settled_invoice = Some ''2024-02-01'' \<and>
   status_code (fst (recordPayment [] ''pay-2'' ''inv-1'' (payment_of ''2024-03-15'' 100) settled_ledger)) = 201 \<and>
   paid_date (invoices (snd (recordPayment [] ''pay-2'' ''inv-1'' (payment_of ''2024-03-15'' 100) settled_ledger)) ! 0) =
     Some ''2024-03-15''"
  by code_simp

text \<open>
  C6, amended.  An accepted payment sets \<open>paid_date\<close> to the payment's date whenever
  the balance before the payment plus the amount as the request sends it reaches the
  invoice's amount, also when the invoice was paid before; in every other case
  \<open>paid_date\<close> is left as it was.
\<close>

theorem recordPayment_paid_date:
  assumes "recordPayment fs paymentId invoiceId b d = (Created p, d')"
    and "pb_amount b = Val x"
    and "k < length (invoices d)"
    and "inv_id (invoices d ! k) = invoiceId"
  shows "paymentDate b = Val (payment_date p) \<and>
     paid_date (invoices d' ! k) =
       (if amount_paid (invoices d ! k) + x \<ge> amount (invoices d ! k)
        then Some (payment_date p)
        else paid_date (invoices d ! k))"
proof -
  from assms(1) have "paymentDate b = Val (payment_date p)"
    by (rule recordPayment_Created) simp
  with pay_invoice_row_Inr [OF recordPayment_row [OF assms]] show ?thesis
    by simp
qed

theorem recordPayment_paid_date_witness:
  "paid_date (invoices (snd (recordPayment [] ''pay-1'' ''inv-1'' (payment_of ''2024-03-01'' 400) open_ledger)) ! 0) = None \<and>
   paid_date (invoices (snd (recordPayment [] ''pay-1'' ''inv-1'' (payment_of ''2024-03-01'' 1000) open_ledger)) ! 0) = Some ''2024-03-01''"
proof -
  define d' where "d' = snd (recordPayment [] ''pay-1'' ''inv-1'' (payment_of ''2024-03-01'' 400) open_ledger)"
  define e' where "e' = snd (recordPayment [] ''pay-1'' ''inv-1'' (payment_of ''2024-03-01'' 1000) open_ledger)"
  have "status_code (fst (recordPayment [] ''pay-1'' ''inv-1'' (payment_of ''2024-03-01'' 400) open_ledger)) = 201"
    and "status_code (fst (recordPayment [] ''pay-1'' ''inv-1'' (payment_of ''2024-03-01'' 1000) open_ledger)) = 201"
    by code_simp+
  then obtain p q where "fst (recordPayment [] ''pay-1'' ''inv-1'' (payment_of ''2024-03-01'' 400) open_ledger) = Created p"
    and "fst (recordPayment [] ''pay-1'' ''inv-1'' (payment_of ''2024-03-01'' 1000) open_ledger) = Created q"
    by (auto dest!: status_code_201)
  then have r: "recordPayment [] ''pay-1'' ''inv-1'' (payment_of ''2024-03-01'' 400) open_ledger = (Created p, d')"
    and t: "recordPayment [] ''pay-1'' ''inv-1'' (payment_of ''2024-03-01'' 1000) open_ledger = (Created q, e')"
    by (simp_all add: d'_def e'_def prod_eq_iff)
  have x: "pb_amount (payment_of ''2024-03-01'' 400) = Val 400"
    and y: "pb_amount (payment_of ''2024-03-01'' 1000) = Val 1000"
    by (simp_all add: payment_of_def)
  have k: "0 < length (invoices open_ledger)"
    by (simp add: open_ledger_def)
  have i: "inv_id (invoices open_ledger ! 0) = ''inv-1''"
    by (simp add: open_ledger_def open_invoice_def)
  from recordPayment_paid_date [OF r x k i] recordPayment_paid_date [OF t y k i]
  have "paid_date (invoices d' ! 0) = None \<and> paid_date (invoices e' ! 0) = Some ''2024-03-01''"
    by (simp add: open_ledger_def open_invoice_def payment_of_def)
  then show ?thesis
    unfolding d'_def e'_def .
qed

text \<open>
  C7, as the claim states it, fails: the handler refuses an amount only when it is
  absent, null or 0, so a payment of -100 is accepted and the balance of the invoice
  falls from 1000 to 900.
\<close>

theorem negative_payment_lowers_amount_paid:
  "status_code (fst (recordPayment [] ''pay-3'' ''inv-1'' (payment_of ''2024-03-15'' (- 100)) settled_ledger)) = 201 \<and>
   amount_paid (invoices settled_ledger ! 0) = 1000 \<and>
   amount_paid (invoices (snd (recordPayment [] ''pay-3'' ''inv-1'' (payment_of ''2024-03-15'' (- 100)) settled_ledger)) ! 0) = 900"
  by code_simp

text \<open>
  C7, amended.  After an accepted payment whose amount is positive, the invoice's
  \<open>amount_paid\<close> (a whole number of cents, as the column holds it) is at least its
  value before.
\<close>

theorem recordPayment_monotone_for_positive_amounts:
  assumes "recordPayment fs paymentId invoiceId b d = (Created p, d')"
    and "pb_amount b = Val x" and "0 < x"
    and "k < length (invoices d)"
    and "inv_id (invoices d ! k) = invoiceId"
    and "whole_cents (amount_paid (invoices d ! k))"
  shows "amount_paid (invoices d ! k) \<le> amount_paid (invoices d' ! k)"
proof -
  note row = pay_invoice_row_Inr [OF recordPayment_row [OF assms(1,2,4,5)]]
  from assms(3) have "0 \<le> x" by simp
  with assms(6) show ?thesis
    using row by (blast intro: decimal_not_below)
qed

theorem recordPayment_monotone_for_positive_amounts_witness:
  "amount_paid (invoices open_ledger ! 0) \<le>
   amount_paid (invoices (snd (recordPayment [] ''pay-1'' ''inv-1'' (payment_of ''2024-03-01'' 400) open_ledger)) ! 0)"
proof -
  define d' where "d' = snd (recordPayment [] ''pay-1'' ''inv-1'' (payment_of ''2024-03-01'' 400) open_ledger)"
  have "status_code (fst (recordPayment [] ''pay-1'' ''inv-1'' (payment_of ''2024-03-01'' 400) open_ledger)) = 201"
    by code_simp
  then obtain p where "fst (recordPayment [] ''pay-1'' ''inv-1'' (payment_of ''2024-03-01'' 400) open_ledger) = Created p"
    by (auto dest: status_code_201)
  then have r: "recordPayment [] ''pay-1'' ''inv-1'' (payment_of ''2024-03-01'' 400) open_ledger = (Created p, d')"
    by (simp add: d'_def prod_eq_iff)
  have x: "pb_amount (payment_of ''2024-03-01'' 400) = Val 400"
    by (simp add: payment_of_def)
  have c: "(0::rat) < 400"
    by simp
  have k: "0 < length (invoices open_ledger)"
    by (simp add: open_ledger_def)
  have i: "inv_id (invoices open_ledger ! 0) = ''inv-1''"
    by (simp add: open_ledger_def open_invoice_def)
  have z: "whole_cents (amount_paid (invoices open_ledger ! 0))"
    by (simp add: open_ledger_def open_invoice_def whole_cents_def)
  from recordPayment_monotone_for_positive_amounts [OF r x c k i z] show ?thesis
    unfolding d'_def .
qed

section \<open>Creating and updating invoices\<close>

text \<open>
  The retainage is computed only when both fields are supplied; otherwise the stored one stays.
\<close>

lemma retainageAmount_of_cases:
  "retainageAmount_of fp b =
     (if u_amount b = Undefined \<or> u_retainagePercent b = Undefined then Undefined
      else Val (times_percent fp (u_amount b) (u_retainagePercent b)))"
  by (simp add: retainageAmount_of_def)

lemma update_invoice_row_keeps_retainage:
  assumes "update_invoice_row b Undefined i = Inr i'" and "whole_cents (retainage_amount i)"
  shows "retainage_amount i' = retainage_amount i"
  using assms by (auto simp: update_invoice_row_def then_do_Inr intro: whole_cents_decimal)

text \<open>
  C8 (the handler where only one of the two fields is supplied).  The invoice of 1000
  with 10 percent retained holds a retainage of 100.  An update that supplies only the
  amount 2000 stores the amount and leaves the retainage at 100, not 200; an update
  that supplies only 5 percent stores the percentage and leaves the retainage at 100,
  not 50.
\<close>

theorem updateInvoice_retainage_stale:
  "amount (invoices (snd (updateInvoice fp [] ''inv-1'' (no_update\<lparr>u_amount := Val 2000\<rparr>) open_ledger)) ! 0) = 2000 \<and>
   retainage_percent (invoices (snd (updateInvoice fp [] ''inv-1'' (no_update\<lparr>u_amount := Val 2000\<rparr>) open_ledger)) ! 0) = Some 10 \<and>
   retainage_amount (invoices (snd (updateInvoice fp [] ''inv-1'' (no_update\<lparr>u_amount := Val 2000\<rparr>) open_ledger)) ! 0) = 100 \<and>
   amount (invoices (snd (updateInvoice fp [] ''inv-1'' (no_update\<lparr>u_retainagePercent := Val 5\<rparr>) open_ledger)) ! 0) = 1000 \<and>
   retainage_percent (invoices (snd (updateInvoice fp [] ''inv-1'' (no_update\<lparr>u_retainagePercent := Val 5\<rparr>) open_ledger)) ! 0) = Some 5 \<and>
   retainage_amount (invoices (snd (updateInvoice fp [] ''inv-1'' (no_update\<lparr>u_retainagePercent := Val 5\<rparr>) open_ledger)) ! 0) = 100"
proof -
  have a: "update_invoice (no_update\<lparr>u_amount := Val 2000\<rparr>) Undefined ''inv-1'' open_ledger =
      Inr ([open_invoice\<lparr>amount := 2000\<rparr>], open_ledger\<lparr>invoices := [open_invoice\<lparr>amount := 2000\<rparr>]\<rparr>)"
    by code_simp
  have b: "update_invoice (no_update\<lparr>u_retainagePercent := Val 5\<rparr>) Undefined ''inv-1'' open_ledger =
      Inr ([open_invoice\<lparr>retainage_percent := Some 5\<rparr>],
           open_ledger\<lparr>invoices := [open_invoice\<lparr>retainage_percent := Some 5\<rparr>]\<rparr>)"
    by code_simp
  have ra: "retainageAmount_of fp (no_update\<lparr>u_amount := Val 2000\<rparr>) = Undefined"
    "retainageAmount_of fp (no_update\<lparr>u_retainagePercent := Val 5\<rparr>) = Undefined"
    by (simp_all add: retainageAmount_of_def no_update_def)
  have "snd (updateInvoice fp [] ''inv-1'' (no_update\<lparr>u_amount := Val 2000\<rparr>) open_ledger) =
      open_ledger\<lparr>invoices := [open_invoice\<lparr>amount := 2000\<rparr>]\<rparr>"
    and "snd (updateInvoice fp [] ''inv-1'' (no_update\<lparr>u_retainagePercent := Val 5\<rparr>) open_ledger) =
      open_ledger\<lparr>invoices := [open_invoice\<lparr>retainage_percent := Some 5\<rparr>]\<rparr>"
    by (simp_all add: updateInvoice_def query_def ra a b)
  then show ?thesis
    by (simp add: open_invoice_def)
qed

text \<open>
  C10, amended.  A request to create an invoice whose amount is the number 0, null or
  absent is answered with 400 and the store is left as it was, whatever the other
  fields hold and whether or not the store would fail.
\<close>

theorem createInvoice_rejects_missing_or_zero_amount:
  assumes "ib_amount b = Val 0 \<or> ib_amount b = Null \<or> ib_amount b = Undefined"
  shows "status_code (fst (createInvoice fp fs newId b d)) = 400 \<and>
     snd (createInvoice fp fs newId b d) = d \<and>
     invoices (snd (createInvoice fp fs newId b d)) = invoices d"
  using assms by (auto simp: createInvoice_def Let_def)

theorem createInvoice_rejects_missing_or_zero_amount_witness:
  "status_code (fst (createInvoice exact [] ''inv-2'' (invoice_request (Val 0) (Val 10)) open_ledger)) = 400 \<and>
   invoices (snd (createInvoice exact [] ''inv-2'' (invoice_request (Val 0) (Val 10)) open_ledger)) = [open_invoice] \<and>
   status_code (fst (createInvoice exact [] ''inv-2'' (invoice_request Undefined (Val 10)) open_ledger)) = 400 \<and>
   invoices (snd (createInvoice exact [] ''inv-2'' (invoice_request Undefined (Val 10)) open_ledger)) = [open_invoice]"
proof -
  have z: "ib_amount (invoice_request (Val 0) (Val 10)) = Val 0 \<or> ib_amount (invoice_request (Val 0) (Val 10)) = Null
      \<or> ib_amount (invoice_request (Val 0) (Val 10)) = Undefined"
    by (simp add: invoice_request_def)
  have u: "ib_amount (invoice_request Undefined (Val 10)) = Val 0 \<or> ib_amount (invoice_request Undefined (Val 10)) = Null
      \<or> ib_amount (invoice_request Undefined (Val 10)) = Undefined"
    by (simp add: invoice_request_def)
  have l: "invoices open_ledger = [open_invoice]"
    by (simp add: open_ledger_def)
  from createInvoice_rejects_missing_or_zero_amount [OF z, of exact "[]" "''inv-2''" open_ledger]
    createInvoice_rejects_missing_or_zero_amount [OF u, of exact "[]" "''inv-2''" open_ledger]
  show ?thesis
    by (simp only: l)
qed

text \<open>
  C10, as the claim states it, fails: an invoice with amount exactly 0 can be created
  through POST /invoices.  The amount 0.004 is not 0, so the request passes the check,
  and the column of two decimals stores it as 0.00.
\<close>

theorem sub_cent_invoice_is_stored_with_amount_zero:
  "status_code (fst (createInvoice exact [] ''inv-2'' (invoice_request (Val (1 / 250)) Undefined) open_ledger)) = 201 \<and>
   map amount (invoices (snd (createInvoice exact [] ''inv-2'' (invoice_request (Val (1 / 250)) Undefined) open_ledger))) =
     [1000, 0]"
  by code_simp

text \<open>
  A request with a positive amount and 10 percent retained, and an update with a status outside the CHECK list.
\<close>

lemma createInvoice_accepts_positive_amount:
  "status_code (fst (createInvoice exact [] ''inv-2'' (invoice_request (Val 250) (Val 10)) open_ledger)) = 201 \<and>
   map amount (invoices (snd (createInvoice exact [] ''inv-2'' (invoice_request (Val 250) (Val 10)) open_ledger))) = [1000, 250] \<and>
   map retainage_amount (invoices (snd (createInvoice exact [] ''inv-2'' (invoice_request (Val 250) (Val 10)) open_ledger))) = [100, 25]"
  by code_simp

lemma unknown_payment_status_is_refused:
  "updateInvoice exact [] ''inv-1'' (no_update\<lparr>u_paymentStatus := Val ''settled''\<rparr>) open_ledger =
     (ServerError ''Failed to update invoice'', open_ledger)"
  by code_simp

section \<open>The deadline calculator\<close>

lemma msPerDay_pos: "0 < msPerDay"
  by (simp add: msPerDay_def)

lemma toISODate_Date_parse: "toISODate (Date_parse day + n * msPerDay) = day + n"
  using msPerDay_pos by (simp add: toISODate_def Date_parse_def flip: distrib_right)

text \<open>
  In a zone whose offset never changes, \<open>setDate\<close> moves a time value by whole days.
\<close>

lemma setDate_plus_fixed_offset:
  assumes "\<And>t. offset_at_utc tz t = c" and "\<And>t. offset_at_local tz t = c"
  shows "setDate_plus tz t n = t + n * msPerDay"
  by (simp add: setDate_plus_def assms Let_def)

text \<open>
  No rule for the pair: 404 and nothing else, as long as the lookup itself succeeds.
\<close>

lemma calculate_no_rule:
  assumes "truthy_str (deadlineType b)" and "truthy_date (triggerDate b)" and "0 \<notin> set fs"
    and "\<And>r. r \<in> set (colorado_lien_rules d) \<Longrightarrow>
           \<not> (Some (rule_type r) = sql_param (deadlineType b) \<and>
              Some (rule_project_type r) =
                sql_param (case projectType b of Undefined \<Rightarrow> Val ''private'' | v \<Rightarrow> v))"
  shows "calculate tz fs b d = (NotFound ''No Colorado lien law rule found for this deadline type'', d)"
proof -
  have "filter (\<lambda>r. Some (rule_type r) = sql_param (deadlineType b) \<and>
          Some (rule_project_type r) =
            sql_param (case projectType b of Undefined \<Rightarrow> Val ''private'' | v \<Rightarrow> v))
        (colorado_lien_rules d) = []"
    using assms(4) by (simp add: filter_empty_conv)
  then show ?thesis
    using assms(1-3) by (simp add: calculate_def query_def select_rule_def Let_def)
qed

text \<open>
  With a rule for the pair, in a zone whose offset never changes (UTC is one), the
  result is the trigger date plus the rule's days, with the rule's own fields.
\<close>

lemma calculate_fixed_offset:
  assumes "deadlineType b = Val ty" and "ty \<noteq> []" and "triggerDate b = Val day" and "0 \<notin> set fs"
    and "filter (\<lambda>r. Some (rule_type r) = sql_param (deadlineType b) \<and>
          Some (rule_project_type r) =
            sql_param (case projectType b of Undefined \<Rightarrow> Val ''private'' | v \<Rightarrow> v))
        (colorado_lien_rules d) = rule # others"
    and "\<And>t. offset_at_utc tz t = c" and "\<And>t. offset_at_local tz t = c"
  shows "calculate tz fs b d =
     (Ok \<lparr>deadlineDate = day + deadline_days rule, deadlineDays = deadline_days rule,
          description = rule_description rule, triggerEvent = trigger_event rule,
          statutoryReference = statutory_reference rule\<rparr>, d)"
  using assms(1-5)
  by (simp add: calculate_def query_def select_rule_def Let_def
      setDate_plus_fixed_offset [OF assms(6,7)] toISODate_Date_parse)

text \<open>
  C3 (the handler in a zone with daylight saving).  The process runs in
  America/Denver; the seeded rule gives 10 days and the trigger date is 2024-03-01.  The
  trigger is midnight UTC, 17:00 of 2024-02-29 in local time; \<open>setDate\<close> moves local
  time to 17:00 of 2024-03-10, by then six hours behind UTC, which is 23:00Z of the
  same day: the handler answers 2024-03-10, one day short of 2024-03-11.
\<close>

theorem calculate_drifts_across_dst:
  "fst (calculate denver [] (calculate_request ''preliminary_notice'' (civil_day 2024 3 1)) rules_store) =
     Ok \<lparr>deadlineDate = civil_day 2024 3 10, deadlineDays = 10,
         description = ''Preliminary notice must be sent within 10 days of first furnishing labor or materials'',
         triggerEvent = ''first_work_date'',
         statutoryReference = Some (''C.R.S. '' @ [CHR 0xC2, CHR 0xA7] @ '' 38-22-109'')\<rparr> \<and>
   civil_day 2024 3 1 + 10 = civil_day 2024 3 11 \<and>
   civil_day 2024 3 10 \<noteq> civil_day 2024 3 11"
  by (simp add: calculate_def query_def select_rule_def calculate_request_def rules_store_def
      seeded_rules_def Date_parse_def setDate_plus_def toISODate_def
      denver_def civil_day_def msPerDay_def Let_def)

theorem calculate_drifts_across_dst_witness:
  "status_code (fst (calculate denver [] (calculate_request ''preliminary_notice'' (civil_day 2024 3 1)) rules_store)) = 200 \<and>
   fst (calculate denver [] (calculate_request ''preliminary_notice'' (civil_day 2024 3 1)) rules_store) \<noteq>
     Ok \<lparr>deadlineDate = civil_day 2024 3 11, deadlineDays = 10,
         description = ''Preliminary notice must be sent within 10 days of first furnishing labor or materials'',
         triggerEvent = ''first_work_date'',
         statutoryReference = Some (''C.R.S. '' @ [CHR 0xC2, CHR 0xA7] @ '' 38-22-109'')\<rparr>"
  using calculate_drifts_across_dst by simp

text \<open>
  The same request when the process runs in UTC, and a pair the schema file seeds no rule for.
\<close>

lemma calculate_in_utc:
  "fst (calculate utc [] (calculate_request ''preliminary_notice'' (civil_day 2024 3 1)) rules_store) =
     Ok \<lparr>deadlineDate = civil_day 2024 3 11, deadlineDays = 10,
         description = ''Preliminary notice must be sent within 10 days of first furnishing labor or materials'',
         triggerEvent = ''first_work_date'',
         statutoryReference = Some (''C.R.S. '' @ [CHR 0xC2, CHR 0xA7] @ '' 38-22-109'')\<rparr>"
  by (simp add: calculate_def query_def select_rule_def calculate_request_def rules_store_def
      seeded_rules_def Date_parse_def setDate_plus_def toISODate_def
      utc_def civil_day_def msPerDay_def Let_def)

lemma no_rule_is_seeded_for_a_bond_claim:
  "fst (calculate utc [] (calculate_request ''payment_bond_claim'' (civil_day 2024 3 1)) rules_store) =
     NotFound ''No Colorado lien law rule found for this deadline type''"
  by (simp add: calculate_def query_def select_rule_def calculate_request_def rules_store_def
      seeded_rules_def Let_def)

section \<open>The deadline generator\<close>

lemma toISODate_days: "toISODate (day * msPerDay + n * msPerDay) = day + n"
  using msPerDay_pos by (simp add: toISODate_def flip: distrib_right)

lemma toISODate_day: "toISODate (day * msPerDay) = day"
  using msPerDay_pos by (simp add: toISODate_def)

text \<open>
  What the handler does once the project is found and every statement succeeds: the
  notice for a private project, then the filing when the request has an end date.  The
  INSERTs succeed when the user exists, the identifiers are new and the titles, which
  end with the project's name, fit \<open>VARCHAR(255)\<close>.
\<close>

lemma insert_deadline_accepts:
  assumes "dl_id r \<notin> set (map dl_id (deadlines d))"
    and "dl_user_id r \<in> set (users d)"
    and "dl_project_id r = Some pid" and "pid \<in> set (map proj_id (projects d))"
    and "deadline_type r \<in> set deadline_types"
    and "length (title r) \<le> 255"
    and "dl_status r \<in> set deadline_statuses"
    and "dl_priority r = Some pr" and "pr \<in> set priorities"
  shows "insert_deadline r d = Inr ([r], d\<lparr>deadlines := deadlines d @ [r]\<rparr>)"
  using assms
  by (simp add: insert_deadline_def primary_key_def references_def check_in_def varchar_def)

lemma autoCreate_found:
  assumes "ac_userId b = Val user" and "user \<noteq> []" and "user \<in> set (users d)"
    and "ac_projectId b = Val pid" and "pid \<noteq> []"
    and "filter (\<lambda>p. proj_id p = pid) (projects d) = project # others"
    and "length (project_name project) \<le> 227"
    and "prelimId \<notin> set (map dl_id (deadlines d))" and "lienId \<notin> set (map dl_id (deadlines d))"
    and "prelimId \<noteq> lienId"
    and "0 \<notin> set fs" and "1 \<notin> set fs" and "2 \<notin> set fs"
  shows "autoCreate tz fs prelimId lienId b d =
     (let projectType' = (case ac_projectType b of Undefined \<Rightarrow> Val ''private'' | v \<Rightarrow> v);
          startDate = startDate_of tz (workStartDate b) project;
          ds1 = (if projectType' = Val ''private'' then [prelim_row tz prelimId user pid project startDate] else []);
          ds2 = (case endDate_of (workEndDate b) of None \<Rightarrow> []
                 | Some e \<Rightarrow> [lien_row tz lienId user pid project projectType' e])
      in (Created (ds1 @ ds2), d\<lparr>deadlines := deadlines d @ ds1 @ ds2\<rparr>))"
proof -
  from assms(6) have "project \<in> set (filter (\<lambda>p. proj_id p = pid) (projects d))"
    by simp
  then have pid: "pid \<in> set (map proj_id (projects d))"
    by auto
  have prelim: "insert_deadline (prelim_row tz prelimId user pid project t) d =
      Inr ([prelim_row tz prelimId user pid project t],
           d\<lparr>deadlines := deadlines d @ [prelim_row tz prelimId user pid project t]\<rparr>)" for t
    using assms(3,7,8) pid
    by (intro insert_deadline_accepts [where pid = pid and pr = "''high''"])
      (simp_all add: prelim_row_def Let_def deadline_types_def deadline_statuses_def
        priorities_def default_status_def)
  have lien: "insert_deadline (lien_row tz lienId user pid project ty e) d' =
      Inr ([lien_row tz lienId user pid project ty e],
           d'\<lparr>deadlines := deadlines d' @ [lien_row tz lienId user pid project ty e]\<rparr>)"
    if "lienId \<notin> set (map dl_id (deadlines d'))" and "users d' = users d" and "projects d' = projects d"
    for ty e d'
    using assms(3,7) pid that
    by (intro insert_deadline_accepts [where pid = pid and pr = "''critical''"])
      (simp_all add: lien_row_def Let_def deadline_types_def deadline_statuses_def
        priorities_def default_status_def)
  have lien_after: "lienId \<notin> set (map dl_id (deadlines
        (d\<lparr>deadlines := deadlines d @ [prelim_row tz prelimId user pid project t]\<rparr>)))" for t
    using assms(9,10) by (simp add: prelim_row_def Let_def)
  show ?thesis
    using assms(1,2,4,5,6,11,12,13)
    by (simp add: autoCreate_def query_def select_project_def Let_def prelim
        lien [OF assms(9)] lien [OF lien_after] split: option.splits)
qed

text \<open>
  C4, as the claim states it, fails: for a project of type ``public'' of which only
  the start date is known the handler creates no deadline at all, since the
  preliminary notice is created for private projects only.
\<close>

theorem autoCreate_public_project_start_only:
  "autoCreate utc [] ''dl-2'' ''dl-3'' (auto_request (Val (civil_day 2024 3 1)) Undefined (Val ''public'')) project_store =
     (Created [], project_store)"
  by (simp add: autoCreate_def query_def select_project_def auto_request_def project_store_def
      open_ledger_def depot_def startDate_of_def endDate_of_def Let_def)

text \<open>
  C4, amended.  The process runs in UTC, the user and the project exist, the
  identifiers are new, the project's name has at most 227 characters and the pool does
  not fail.  The end date, when one is known, is the request's.  A preliminary notice
  (start date + 10 days, priority high, trigger date the start date) is created when
  the project type of the request is ``private'', which an absent type defaults to, the
  start date being the request's or else the project row's.  A filing (end date + 120 days,
  priority critical, trigger date the end date; a mechanics lien for a private project,
  a payment bond claim for any other type) is created when an end date is known.  So a
  private project gets one deadline from a start date alone and two from both dates, in
  this order; a project of another type gets none from a start date alone, one from an
  end date, and none, without an error, when no end date is known.  The created rows
  are appended to the table.
\<close>

theorem autoCreate_deadlines:
  assumes "ac_userId b = Val user" and "user \<noteq> []" and "user \<in> set (users d)"
    and "ac_projectId b = Val pid" and "pid \<noteq> []"
    and "filter (\<lambda>p. proj_id p = pid) (projects d) = project # others"
    and "length (project_name project) \<le> 227"
    and "prelimId \<notin> set (map dl_id (deadlines d))" and "lienId \<notin> set (map dl_id (deadlines d))"
    and "prelimId \<noteq> lienId"
    and "0 \<notin> set fs" and "1 \<notin> set fs" and "2 \<notin> set fs"
    and "\<And>t. offset_at_utc tz t = 0" and "\<And>t. offset_at_local tz t = 0"
    and "ac_projectType b = Undefined \<or> ac_projectType b = Val ''private'' \<Longrightarrow>
           workStartDate b = Val s \<or> (\<not> truthy_date (workStartDate b) \<and> work_start_date project = Some s)"
    and "\<not> truthy_date (workEndDate b) \<Longrightarrow> work_end_date project = None"
  shows "\<exists>ds. autoCreate tz fs prelimId lienId b d = (Created ds, d\<lparr>deadlines := deadlines d @ ds\<rparr>) \<and>
     map (\<lambda>r. (deadline_type r, deadline_date r, trigger_date r, dl_priority r)) ds =
       (if ac_projectType b = Undefined \<or> ac_projectType b = Val ''private''
        then [(''preliminary_notice'', s + 10, Some s, Some ''high'')] else []) @
       (case workEndDate b of
          Val e \<Rightarrow> [(if ac_projectType b = Undefined \<or> ac_projectType b = Val ''private''
                     then ''mechanics_lien'' else ''payment_bond_claim'', e + 120, Some e, Some ''critical'')]
        | _ \<Rightarrow> [])"
proof -
  note found = autoCreate_found [OF assms(1-13)]
  note days = setDate_plus_fixed_offset [OF assms(14,15)]
  show ?thesis
  proof (cases "ac_projectType b = Undefined \<or> ac_projectType b = Val ''private''")
    case True
    from assms(16) [OF True] have start: "toISODate (startDate_of tz (workStartDate b) project) = s"
      "toISODate (startDate_of tz (workStartDate b) project + 10 * msPerDay) = s + 10"
      using toISODate_days [of s 10]
      by (auto simp: startDate_of_def Date_parse_def pg_date_def assms(15) toISODate_day)
    from True show ?thesis
      unfolding found
      by (cases "workEndDate b")
        (auto simp: Let_def prelim_row_def lien_row_def endDate_of_def days start
          Date_parse_def toISODate_days toISODate_day)
  next
    case False
    then show ?thesis
      unfolding found
      by (cases "workEndDate b"; cases "ac_projectType b")
        (auto simp: Let_def prelim_row_def lien_row_def endDate_of_def days
          Date_parse_def toISODate_days toISODate_day)
  qed
qed

theorem autoCreate_deadlines_witness:
  "map (\<lambda>r. (deadline_type r, deadline_date r, trigger_date r, dl_priority r))
     (case fst (autoCreate utc [] ''dl-2'' ''dl-3''
                  (auto_request (Val (civil_day 2024 3 1)) (Val (civil_day 2024 6 30)) Undefined)
                  project_store) of
        Created ds \<Rightarrow> ds | _ \<Rightarrow> []) =
     [(''preliminary_notice'', civil_day 2024 3 11, Some (civil_day 2024 3 1), Some ''high''),
      (''mechanics_lien'', civil_day 2024 10 28, Some (civil_day 2024 6 30), Some ''critical'')]"
proof -
  let ?b = "auto_request (Val (civil_day 2024 3 1)) (Val (civil_day 2024 6 30)) Undefined"
  have u: "ac_userId ?b = Val ''user-1''" and un: "''user-1'' \<noteq> []"
    and p: "ac_projectId ?b = Val ''proj-1''" and pn: "''proj-1'' \<noteq> []"
    by (simp_all add: auto_request_def)
  have uk: "''user-1'' \<in> set (users project_store)"
    by (simp add: project_store_def open_ledger_def)
  have f: "filter (\<lambda>p. proj_id p = ''proj-1'') (projects project_store) = depot # []"
    by (simp add: project_store_def open_ledger_def depot_def)
  have n: "length (project_name depot) \<le> 227"
    by (simp add: depot_def)
  have i1: "''dl-2'' \<notin> set (map dl_id (deadlines project_store))"
    and i2: "''dl-3'' \<notin> set (map dl_id (deadlines project_store))"
    and i3: "''dl-2'' \<noteq> ''dl-3''"
    by (simp_all add: project_store_def open_ledger_def)
  have q0: "0 \<notin> set ([] :: nat list)" and q1: "1 \<notin> set ([] :: nat list)" and q2: "2 \<notin> set ([] :: nat list)"
    by simp_all
  have z1: "\<And>t. offset_at_utc utc t = 0" and z2: "\<And>t. offset_at_local utc t = 0"
    by (simp_all add: utc_def)
  have s: "ac_projectType ?b = Undefined \<or> ac_projectType ?b = Val ''private'' \<Longrightarrow>
      workStartDate ?b = Val (civil_day 2024 3 1) \<or>
      (\<not> truthy_date (workStartDate ?b) \<and> work_start_date depot = Some (civil_day 2024 3 1))"
    by (simp add: auto_request_def)
  have e: "\<not> truthy_date (workEndDate ?b) \<Longrightarrow> work_end_date depot = None"
    by (simp add: depot_def)
  from autoCreate_deadlines [OF u un uk p pn f n i1 i2 i3 q0 q1 q2 z1 z2 s e]
  obtain ds where r: "autoCreate utc [] ''dl-2'' ''dl-3'' ?b project_store =
        (Created ds, project_store\<lparr>deadlines := deadlines project_store @ ds\<rparr>)"
    and m: "map (\<lambda>r. (deadline_type r, deadline_date r, trigger_date r, dl_priority r)) ds =
       [(''preliminary_notice'', civil_day 2024 3 1 + 10, Some (civil_day 2024 3 1), Some ''high''),
        (''mechanics_lien'', civil_day 2024 6 30 + 120, Some (civil_day 2024 6 30), Some ''critical'')]"
    by (auto simp: auto_request_def)
  have c: "civil_day 2024 3 1 + 10 = civil_day 2024 3 11" "civil_day 2024 6 30 + 120 = civil_day 2024 10 28"
    by (simp_all add: civil_day_def)
  show ?thesis
    unfolding r using m by (simp add: c)
qed

text \<open>
  Two cases the statement above leaves out.  A private project of which no date is
  known: \<open>new Date(null)\<close> is a \<open>Date\<close> object, so the test of the first block
  passes, and the notice is dated from 1970-01-01.  A project whose row holds both dates
  while the request holds none: the start date is taken from the row, the end date is
  not, and only the notice is created.
\<close>

lemma autoCreate_private_project_without_dates:
  "map (\<lambda>r. (deadline_type r, deadline_date r, trigger_date r))
     (case fst (autoCreate utc [] ''dl-2'' ''dl-3'' (auto_request Undefined Undefined Undefined) project_store) of
        Created ds \<Rightarrow> ds | _ \<Rightarrow> []) =
     [(''preliminary_notice'', civil_day 1970 1 11, Some (civil_day 1970 1 1))]"
  by code_simp

lemma autoCreate_ignores_the_end_date_of_the_project:
  "map (\<lambda>r. (deadline_type r, deadline_date r, trigger_date r))
     (case fst (autoCreate utc [] ''dl-2'' ''dl-3'' (auto_request Undefined Undefined Undefined)
                  (project_store\<lparr>projects :=
                     [depot\<lparr>work_start_date := Some (civil_day 2024 3 1),
                            work_end_date := Some (civil_day 2024 6 30)\<rparr>]\<rparr>)) of
        Created ds \<Rightarrow> ds | _ \<Rightarrow> []) =
     [(''preliminary_notice'', civil_day 2024 3 11, Some (civil_day 2024 3 1))]"
  by code_simp

section \<open>The priority deriver\<close>

lemma ceiling_days:
  assumes "0 < b" and "n = \<lceil>rat_of_int a / rat_of_int b\<rceil>"
  shows "(n - 1) * b < a \<and> a \<le> n * b"
proof -
  have b: "0 < rat_of_int b" using assms(1) by simp
  have "rat_of_int n - 1 < rat_of_int a / rat_of_int b" and "rat_of_int a / rat_of_int b \<le> rat_of_int n"
    unfolding assms(2) by linarith+
  then have "(rat_of_int n - 1) * rat_of_int b < rat_of_int a" and "rat_of_int a \<le> rat_of_int n * rat_of_int b"
    using b by (simp_all add: pos_less_divide_eq pos_divide_le_eq)
  then have "rat_of_int ((n - 1) * b) < rat_of_int a" and "rat_of_int a \<le> rat_of_int (n * b)"
    by simp_all
  then show ?thesis
    by (simp only: of_int_less_iff of_int_le_iff)
qed

lemma listDeadlines_Ok:
  assumes "listDeadlines tz clock fs user status d = (Ok rows, d')"
  obtains u result where "user = Val u" "u \<noteq> []"
    "select_deadlines u status d = Inr (result, d')"
    "rows = map (\<lambda>(k, r). with_days tz (clock k) r) (enumerate 0 result)"
  using assms
  by (cases user) (auto simp: listDeadlines_def query_def split: if_splits sum.splits)

lemma select_deadlines_rows:
  assumes "select_deadlines u status d = Inr (result, d')" and "r \<in> set result"
  shows "fst r \<in> set (deadlines d) \<and> dl_user_id (fst r) = u"
  using assms by (auto simp: select_deadlines_def)

text \<open>
  C5. Every row the list query returns is a stored deadline with two derived fields.
  \<open>days_remaining\<close> is the ceiling of the time from the clock's reading to the
  deadline date, in days (the least number of whole days that covers it, negative once
  the date has passed).  \<open>calculated_priority\<close> is the stored priority when that is
  set (neither NULL nor empty) and is not ``normal''; otherwise it follows the tiers:
  below 0 critical, up to 7 critical, up to 14 high, up to 30 normal, else low.
\<close>

theorem listDeadlines_derived_fields:
  assumes "listDeadlines tz clock fs user status d = (Ok rows, d')" and "k < length rows"
  shows "dv_deadline (rows ! k) \<in> set (deadlines d) \<and>
     days_remaining (rows ! k) =
       \<lceil>rat_of_int (pg_date tz (deadline_date (dv_deadline (rows ! k))) - clock k) / rat_of_int msPerDay\<rceil> \<and>
     (days_remaining (rows ! k) - 1) * msPerDay
        < pg_date tz (deadline_date (dv_deadline (rows ! k))) - clock k \<and>
     pg_date tz (deadline_date (dv_deadline (rows ! k))) - clock k
        \<le> days_remaining (rows ! k) * msPerDay \<and>
     (dl_priority (dv_deadline (rows ! k)) \<noteq> None \<and> dl_priority (dv_deadline (rows ! k)) \<noteq> Some []
        \<and> dl_priority (dv_deadline (rows ! k)) \<noteq> Some ''normal'' \<longrightarrow>
      dl_priority (dv_deadline (rows ! k)) = Some (calculated_priority (rows ! k))) \<and>
     (dl_priority (dv_deadline (rows ! k)) = None \<or> dl_priority (dv_deadline (rows ! k)) = Some []
        \<or> dl_priority (dv_deadline (rows ! k)) = Some ''normal'' \<longrightarrow>
      calculated_priority (rows ! k) =
        (if days_remaining (rows ! k) < 0 then ''critical''
         else if days_remaining (rows ! k) \<le> 7 then ''critical''
         else if days_remaining (rows ! k) \<le> 14 then ''high''
         else if days_remaining (rows ! k) \<le> 30 then ''normal''
         else ''low''))"
proof -
  from assms(1) obtain u result where
    sel: "select_deadlines u status d = Inr (result, d')" and
    rows: "rows = map (\<lambda>(k, r). with_days tz (clock k) r) (enumerate 0 result)"
    by (rule listDeadlines_Ok)
  from rows assms(2) have k: "k < length result"
    by simp
  then have row: "rows ! k = with_days tz (clock k) (result ! k)"
    by (simp add: rows nth_enumerate_eq)
  from k have "result ! k \<in> set result"
    by simp
  with sel have stored: "fst (result ! k) \<in> set (deadlines d)"
    by (simp add: select_deadlines_rows)
  have days: "days_remaining (rows ! k) =
      \<lceil>rat_of_int (pg_date tz (deadline_date (dv_deadline (rows ! k))) - clock k) / rat_of_int msPerDay\<rceil>"
    by (simp add: row with_days_def msPerDay_def Let_def)
  note bounds = ceiling_days [OF msPerDay_pos days]
  have prio: "calculated_priority (rows ! k) =
      (if dl_priority (dv_deadline (rows ! k)) = None \<or> dl_priority (dv_deadline (rows ! k)) = Some []
          \<or> dl_priority (dv_deadline (rows ! k)) = Some ''normal''
       then (if days_remaining (rows ! k) < 0 then ''critical''
             else if days_remaining (rows ! k) \<le> 7 then ''critical''
             else if days_remaining (rows ! k) \<le> 14 then ''high''
             else if days_remaining (rows ! k) \<le> 30 then ''normal''
             else ''low'')
       else (case dl_priority (dv_deadline (rows ! k)) of Some s \<Rightarrow> s | None \<Rightarrow> []))"
    by (simp add: row with_days_def Let_def)
  have manual: "dl_priority (dv_deadline (rows ! k)) \<noteq> None \<and> dl_priority (dv_deadline (rows ! k)) \<noteq> Some []
        \<and> dl_priority (dv_deadline (rows ! k)) \<noteq> Some ''normal'' \<longrightarrow>
      dl_priority (dv_deadline (rows ! k)) = Some (calculated_priority (rows ! k))"
    unfolding prio by (cases "dl_priority (dv_deadline (rows ! k))") simp_all
  have tiers: "dl_priority (dv_deadline (rows ! k)) = None \<or> dl_priority (dv_deadline (rows ! k)) = Some []
        \<or> dl_priority (dv_deadline (rows ! k)) = Some ''normal'' \<longrightarrow>
      calculated_priority (rows ! k) =
        (if days_remaining (rows ! k) < 0 then ''critical''
         else if days_remaining (rows ! k) \<le> 7 then ''critical''
         else if days_remaining (rows ! k) \<le> 14 then ''high''
         else if days_remaining (rows ! k) \<le> 30 then ''normal''
         else ''low'')"
    unfolding prio by simp
  have "dv_deadline (rows ! k) \<in> set (deadlines d)"
    using stored by (simp add: row with_days_def Let_def)
  with days bounds manual tiers show ?thesis
    by blast
qed

theorem listDeadlines_derived_fields_witness:
  "map (\<lambda>v. (days_remaining v, calculated_priority v))
     (case fst (listDeadlines utc (\<lambda>k. civil_day 2024 6 15 * msPerDay + 10 * 3600000) []
                  (Val ''user-1'') Undefined (deadline_store None)) of
        Ok rows \<Rightarrow> rows | _ \<Rightarrow> []) = [(5, ''critical'')]"
proof -
  obtain rows d' where r: "listDeadlines utc (\<lambda>k. civil_day 2024 6 15 * msPerDay + 10 * 3600000) []
       (Val ''user-1'') Undefined (deadline_store None) = (Ok rows, d')"
    and one: "length rows = 1" and row: "dv_deadline (rows ! 0) = filing None"
    by (simp add: listDeadlines_def query_def select_deadlines_def deadline_store_def
        project_store_def open_ledger_def filing_def with_days_def Let_def)
  from one have k: "0 < length rows" by simp
  have days: "days_remaining (rows ! 0) = 5"
    using listDeadlines_derived_fields [OF r k]
    by (simp add: row filing_def pg_date_def utc_def civil_day_def msPerDay_def)
  have "calculated_priority (rows ! 0) = ''critical''"
    using listDeadlines_derived_fields [OF r k] days
    by (simp add: row filing_def)
  with days one show ?thesis
    unfolding r by (cases rows) simp_all
qed

text \<open>
  The tiers at 5, 10, 20, 40 and -3 days remaining, and a stored priority ``low''
  before and after the deadline date.
\<close>

lemma priority_examples:
  "calculated_priority (with_days utc ((civil_day 2024 6 20 - 5) * msPerDay) (filing None, None)) = ''critical'' \<and>
   calculated_priority (with_days utc ((civil_day 2024 6 20 - 10) * msPerDay) (filing None, None)) = ''high'' \<and>
   calculated_priority (with_days utc ((civil_day 2024 6 20 - 20) * msPerDay) (filing None, None)) = ''normal'' \<and>
   calculated_priority (with_days utc ((civil_day 2024 6 20 - 40) * msPerDay) (filing None, None)) = ''low'' \<and>
   calculated_priority (with_days utc ((civil_day 2024 6 20 + 3) * msPerDay) (filing None, None)) = ''critical'' \<and>
   days_remaining (with_days utc ((civil_day 2024 6 20 + 3) * msPerDay) (filing None, None)) = - 3 \<and>
   calculated_priority (with_days utc ((civil_day 2024 6 20 - 5) * msPerDay) (filing (Some ''low''), None)) = ''low'' \<and>
   calculated_priority (with_days utc ((civil_day 2024 6 20 + 3) * msPerDay) (filing (Some ''low''), None)) = ''low''"
  by (simp add: with_days_def filing_def pg_date_def utc_def civil_day_def msPerDay_def Let_def)

section \<open>Completed deadlines and their dates\<close>

text \<open>
  Completing, creating and deleting keep every row completed exactly when it has a completed date.
\<close>

lemma complete_row_invariant: "complete_row today r = Inr r' \<Longrightarrow> completed_iff_dated r'"
  by (auto simp: complete_row_def completed_iff_dated_def)

lemma update_rows_invariant:
  assumes "\<And>r r'. completed_iff_dated r \<Longrightarrow> f r = Inr r' \<Longrightarrow> completed_iff_dated r'"
    and "\<And>r. r \<in> set (deadlines d) \<Longrightarrow> completed_iff_dated r"
    and "update_rows f id' d = Inr (returned, d')"
    and "r' \<in> set (deadlines d')"
  shows "completed_iff_dated r'"
proof -
  from assms(3) obtain table where
    "update_where (\<lambda>r. dl_id r = id') f (deadlines d) = Inr (returned, table)" and "deadlines d' = table"
    by (auto simp: update_rows_def then_do_Inr)
  with assms(4) obtain r where "r \<in> set (deadlines d)" and "if dl_id r = id' then f r = Inr r' else r' = r"
    by (blast dest: update_where_table)
  with assms(1,2) show ?thesis
    by (cases "dl_id r = id'") auto
qed

lemma completeDeadline_keeps_invariant:
  assumes "\<And>r. r \<in> set (deadlines d) \<Longrightarrow> completed_iff_dated r"
    and "r' \<in> set (deadlines (snd (completeDeadline today fs id' d)))"
  shows "completed_iff_dated r'"
proof (cases "query fs 0 (update_rows (complete_row today) id') d")
  case (Inl e)
  with assms show ?thesis
    by (simp add: completeDeadline_def)
next
  case (Inr res)
  obtain returned d' where res: "res = (returned, d')"
    by (cases res)
  with Inr assms(2) have "update_rows (complete_row today) id' d = Inr (returned, d')"
    and "r' \<in> set (deadlines d')"
    by (auto simp: completeDeadline_def query_def split: if_splits)
  with assms(1) show ?thesis
    using update_rows_invariant [where f = "complete_row today" and d = d and d' = d' and r' = r']
      complete_row_invariant
    by blast
qed

lemma createDeadline_keeps_invariant:
  assumes "\<And>r. r \<in> set (deadlines d) \<Longrightarrow> completed_iff_dated r"
    and "r' \<in> set (deadlines (snd (createDeadline fs newId b d)))"
  shows "completed_iff_dated r'"
  using assms
  by (auto simp: createDeadline_def query_def insert_deadline_def then_do_Inr completed_iff_dated_def
      default_status_def default_completed_date_def Let_def
      split: if_splits sum.splits prod.splits)

lemma deleteDeadline_keeps_invariant:
  assumes "\<And>r. r \<in> set (deadlines d) \<Longrightarrow> completed_iff_dated r"
    and "r' \<in> set (deadlines (snd (deleteDeadline fs id' d)))"
  shows "completed_iff_dated r'"
  using assms
  by (auto simp: deleteDeadline_def query_def delete_rows_def split: if_splits)

text \<open>
  C9 (the partial update that supplies a status).  The stored deadline is pending and
  has no completed date.  PUT with the body \<open>{status: "completed"}\<close> is answered with
  200 and leaves the row completed without a completed date; POST /:id/complete writes
  both columns.
\<close>

theorem updateDeadline_breaks_invariant:
  "completed_iff_dated (deadlines (deadline_store None) ! 0) \<and>
   status_code (fst (updateDeadline [] ''dl-1'' (no_deadline_update\<lparr>du_status := Val ''completed''\<rparr>)
      (deadline_store None))) = 200 \<and>
   dl_status (deadlines (snd (updateDeadline [] ''dl-1'' (no_deadline_update\<lparr>du_status := Val ''completed''\<rparr>)
      (deadline_store None))) ! 0) = ''completed'' \<and>
   completed_date (deadlines (snd (updateDeadline [] ''dl-1'' (no_deadline_update\<lparr>du_status := Val ''completed''\<rparr>)
      (deadline_store None))) ! 0) = None \<and>
   \<not> completed_iff_dated (deadlines (snd (updateDeadline [] ''dl-1''
      (no_deadline_update\<lparr>du_status := Val ''completed''\<rparr>) (deadline_store None))) ! 0)"
  by code_simp

text \<open>
  The other direction: a deadline completed on 2024-06-01 and then set back to
  ``pending'' by a partial update keeps its completed date, which \<open>COALESCE\<close> cannot
  clear.  A status outside the CHECK list is refused.
\<close>

lemma reopened_deadline_keeps_its_date:
  "dl_status (deadlines (snd (updateDeadline [] ''dl-1'' (no_deadline_update\<lparr>du_status := Val ''pending''\<rparr>)
      (snd (completeDeadline (civil_day 2024 6 1) [] ''dl-1'' (deadline_store None))))) ! 0) = ''pending'' \<and>
   completed_date (deadlines (snd (updateDeadline [] ''dl-1'' (no_deadline_update\<lparr>du_status := Val ''pending''\<rparr>)
      (snd (completeDeadline (civil_day 2024 6 1) [] ''dl-1'' (deadline_store None))))) ! 0) = Some (civil_day 2024 6 1)"
  by code_simp

lemma unknown_status_is_refused:
  "updateDeadline [] ''dl-1'' (no_deadline_update\<lparr>du_status := Val ''done''\<rparr>) (deadline_store None) =
     (ServerError ''Failed to update deadline'', deadline_store None)"
  by code_simp

end
